theory Spec2Isabelle
  imports Complex_Main "HOL-Library.Word"
begin

section \<open>JavaScript strings\<close>

text \<open>
  A JavaScript string is a sequence of UTF-16 code units and \<open>length\<close> counts code
  units, so a string is a list of 16-bit words. \<open>lit\<close> embeds an ASCII literal; the
  code units of the Vietnamese messages of \<^verbatim>\<open>server.js\<close> beyond ASCII are written
  as numerals.
\<close>

type_synonym jschar = "16 word"
type_synonym js_string = "jschar list"

definition lit :: "string \<Rightarrow> js_string" where
  "lit s = map (\<lambda>c. of_nat (of_char c)) s"

text \<open>Truthiness of a value that is a string or \<^verbatim>\<open>undefined\<close>: \<^verbatim>\<open>!x\<close> holds for
  \<^verbatim>\<open>undefined\<close> and for the empty string.\<close>

fun truthy :: "js_string option \<Rightarrow> bool" where
  "truthy None = False"
| "truthy (Some s) = (s \<noteq> [])"

fun startsWith :: "js_string \<Rightarrow> js_string \<Rightarrow> bool" where
  "startsWith s [] = True"
| "startsWith [] (p # ps) = False"
| "startsWith (c # cs) (p # ps) = (c = p \<and> startsWith cs ps)"

text \<open>\<^verbatim>\<open>s.split(sep)\<close> for a separator of one code unit.\<close>

fun split :: "jschar \<Rightarrow> js_string \<Rightarrow> js_string list" where
  "split sep [] = [[]]"
| "split sep (c # cs) =
     (if c = sep then [] # split sep cs
      else (case split sep cs of
              [] \<Rightarrow> [[c]]
            | p # ps \<Rightarrow> (c # p) # ps))"

section \<open>Password policy\<close>

text \<open>
  The two regular expressions of \<^verbatim>\<open>validatePassword\<close> are single character classes
  without flags; \<^verbatim>\<open>re.test(s)\<close> holds when some code unit of \<open>s\<close> is in the class.
\<close>

datatype class_item = Single jschar | Range jschar jschar

fun item_matches :: "class_item \<Rightarrow> jschar \<Rightarrow> bool" where
  "item_matches (Single a) c = (c = a)"
| "item_matches (Range lo hi) c = (lo \<le> c \<and> c \<le> hi)"

fun class_matches :: "class_item list \<Rightarrow> jschar \<Rightarrow> bool" where
  "class_matches [] c = False"
| "class_matches (i # is) c = (item_matches i c \<or> class_matches is c)"

fun regex_test :: "class_item list \<Rightarrow> js_string \<Rightarrow> bool" where
  "regex_test cls [] = False"
| "regex_test cls (c # cs) = (class_matches cls c \<or> regex_test cls cs)"

text \<open>\<^verbatim>\<open>/[A-Z]/\<close>\<close>

definition uppercase_class :: "class_item list" where
  "uppercase_class = [Range 0x41 0x5A]"

text \<open>The characters of the class \<^verbatim>\<open>/[!@#$%^&*(),.?":{}|<>]/\<close>; the double quote is
  code unit 0x22.\<close>

definition special_chars :: js_string where
  "special_chars = lit ''!@#$%^&*(),.?'' @ [0x22] @ lit '':{}|<>''"

definition special_class :: "class_item list" where
  "special_class = map Single special_chars"

definition msg_minLength :: js_string where
  "msg_minLength = lit ''M'' @ [0x1EAD] @ lit ''t kh'' @ [0x1EA9] @ lit ''u ph'' @ [0x1EA3]
     @ lit ''i c'' @ [0x00F3] @ lit '' '' @ [0x00ED] @ lit ''t nh'' @ [0x1EA5]
     @ lit ''t 8 k'' @ [0x00FD] @ lit '' t'' @ [0x1EF1]"

definition msg_hasUppercase :: js_string where
  "msg_hasUppercase = lit ''M'' @ [0x1EAD] @ lit ''t kh'' @ [0x1EA9] @ lit ''u ph'' @ [0x1EA3]
     @ lit ''i c'' @ [0x00F3] @ lit '' '' @ [0x00ED] @ lit ''t nh'' @ [0x1EA5]
     @ lit ''t 1 ch'' @ [0x1EEF] @ lit '' c'' @ [0x00E1] @ lit ''i vi'' @ [0x1EBF] @ lit ''t hoa''"

definition msg_hasSpecialChar :: js_string where
  "msg_hasSpecialChar = lit ''M'' @ [0x1EAD] @ lit ''t kh'' @ [0x1EA9] @ lit ''u ph'' @ [0x1EA3]
     @ lit ''i c'' @ [0x00F3] @ lit '' '' @ [0x00ED] @ lit ''t nh'' @ [0x1EA5]
     @ lit ''t 1 k'' @ [0x00FD] @ lit '' t'' @ [0x1EF1] @ lit '' '' @ [0x0111, 0x1EB7]
     @ lit ''c bi'' @ [0x1EC7] @ lit ''t (!@#$%^&*)''"

record password_errors =
  err_minLength :: "js_string option"
  err_hasUppercase :: "js_string option"
  err_hasSpecialChar :: "js_string option"

record password_validation =
  isValid :: bool
  errors :: password_errors

definition validatePassword :: "js_string \<Rightarrow> password_validation" where
  "validatePassword password =
     (let minLength = (length password \<ge> 8);
          hasUppercase = regex_test uppercase_class password;
          hasSpecialChar = regex_test special_class password
      in \<lparr> isValid = (minLength \<and> hasUppercase \<and> hasSpecialChar),
           errors = \<lparr> err_minLength = (if \<not> minLength then Some msg_minLength else None),
                      err_hasUppercase = (if \<not> hasUppercase then Some msg_hasUppercase else None),
                      err_hasSpecialChar =
                        (if \<not> hasSpecialChar then Some msg_hasSpecialChar else None) \<rparr> \<rparr>)"

section \<open>JSON values and responses\<close>

text \<open>
  A response is the status passed to \<^verbatim>\<open>res.status\<close> (200 when the handler calls
  \<^verbatim>\<open>res.json\<close> directly) and the value passed to \<^verbatim>\<open>res.json\<close>. Console output
  is not part of the model.
\<close>

datatype json =
    JNull
  | JBool bool
  | JNum real
  | JStr js_string
  | JArr "json list"
  | JObj "(string \<times> json) list"

record response =
  status :: nat
  body :: json

fun field :: "string \<Rightarrow> json \<Rightarrow> json option" where
  "field k (JObj kvs) = map_of kvs k"
| "field k _ = None"

text \<open>A property whose value is \<^verbatim>\<open>undefined\<close> is left out by \<^verbatim>\<open>JSON.stringify\<close>;
  \<^verbatim>\<open>null\<close> is written.\<close>

fun opt_prop :: "string \<Rightarrow> js_string option \<Rightarrow> (string \<times> json) list" where
  "opt_prop k None = []"
| "opt_prop k (Some s) = [(k, JStr s)]"

fun nullable :: "js_string option \<Rightarrow> json" where
  "nullable None = JNull"
| "nullable (Some s) = JStr s"

section \<open>The managed store\<close>

text \<open>
  The tables \<^verbatim>\<open>users\<close>, \<^verbatim>\<open>images\<close> and \<^verbatim>\<open>activities\<close>, and the storage bucket
  \<^verbatim>\<open>images\<close>. The \<^verbatim>\<open>activities\<close> table is created by hand (see the note at the
  top of \<^verbatim>\<open>server.js\<close>) and may be missing: \<open>None\<close>. Identifiers are the strings
  the store assigns; timestamps are milliseconds.
\<close>

type_synonym ident = js_string

record user =
  u_id :: ident
  full_name :: js_string
  u_email :: js_string
  hashed_password :: js_string
  bio :: "js_string option"
  avatar_url :: "js_string option"
  u_created_at :: nat
  updated_at :: nat

record image =
  i_id :: ident
  i_user_id :: ident
  i_prompt :: js_string
  image_url :: js_string
  file_path :: js_string
  i_created_at :: nat

record activity =
  a_id :: ident
  a_user_id :: ident
  a_action :: js_string
  image_id :: "ident option"
  timestamp :: nat
  additional_data :: "(string \<times> json) list"

record world =
  users :: "user list"
  images :: "image list"
  activities :: "activity list option"
  objects :: "js_string list"

text \<open>
  Every call of the client resolves to \<^verbatim>\<open>{ data, error }\<close>. A thrown value is an
  \<^verbatim>\<open>Error\<close> with its message, or an error object of the store that a handler throws
  again (\<^verbatim>\<open>throw fetchError\<close>); \<^verbatim>\<open>err.message\<close> reads either.
\<close>

record pg_error =
  pg_code :: "js_string option"
  pg_message :: "js_string option"

record 'a result =
  data :: "'a option"
  error :: "pg_error option"

datatype exn = Error js_string | Rejected pg_error

fun exn_message :: "exn \<Rightarrow> js_string option" where
  "exn_message (Error m) = Some m"
| "exn_message (Rejected e) = pg_message e"

text \<open>
  \<^verbatim>\<open>.single()\<close> asks for exactly one row: with no row or with several rows the client
  resolves to \<^verbatim>\<open>data: null\<close> and an error of code \<^verbatim>\<open>PGRST116\<close> (only
  \<^verbatim>\<open>.maybeSingle()\<close>, which \<^verbatim>\<open>server.js\<close> never calls, turns the empty result
  into \<^verbatim>\<open>data: null\<close> without an error).
\<close>

definition pgrst116 :: pg_error where
  "pgrst116 = \<lparr> pg_code = Some (lit ''PGRST116''),
                 pg_message = Some (lit ''JSON object requested, multiple (or no) rows returned'') \<rparr>"

fun single :: "'a list \<Rightarrow> 'a result" where
  "single [r] = \<lparr> data = Some r, error = None \<rparr>"
| "single rows = \<lparr> data = None, error = Some pgrst116 \<rparr>"

text \<open>
  What the store does with a call: it carries it out, it answers with an error, or the
  call throws.
\<close>

datatype fault = Proceeds | Refuses pg_error | Raises exn


text \<open>\<^verbatim>\<open>supabase.from('users').select(...).eq('email', email).single()\<close>\<close>

definition users_lookup :: "fault \<Rightarrow> js_string \<Rightarrow> world \<Rightarrow> exn + user result" where
  "users_lookup f email w =
     (case f of
        Raises x \<Rightarrow> Inl x
      | Refuses e \<Rightarrow> Inr \<lparr> data = None, error = Some e \<rparr>
      | Proceeds \<Rightarrow> Inr (single (filter (\<lambda>u. u_email u = email) (users w))))"

section \<open>Registration and login\<close>










text \<open>The payload of a token: \<^verbatim>\<open>{ userId, email }\<close>, and \<^verbatim>\<open>role\<close> when a token
  carries one.\<close>

record claims =
  c_userId :: ident
  c_email :: js_string
  c_role :: "js_string option"

text \<open>
  A field of the JSON body of a login request: absent, a string, or a value that is not a
  string (a number, a boolean, \<^verbatim>\<open>null\<close>, an array, an object), given by its
  truthiness and by what \<^verbatim>\<open>String(v)\<close> makes of it.
\<close>

datatype body_value = Absent | Text js_string | NonText bool js_string

fun truthy_value :: "body_value \<Rightarrow> bool" where
  "truthy_value Absent = False"
| "truthy_value (Text s) = (s \<noteq> [])"
| "truthy_value (NonText t s) = t"

text \<open>The value in a template string, as in the filter \<^verbatim>\<open>eq.${value}\<close> that
  \<^verbatim>\<open>.eq(column, value)\<close> sends.\<close>

fun String_of :: "body_value \<Rightarrow> js_string" where
  "String_of Absent = lit ''undefined''"
| "String_of (Text s) = s"
| "String_of (NonText t s) = s"

text \<open>
  \<^verbatim>\<open>bcrypt.compare(data, hash)\<close> with a stored hash: the promise is rejected when
  the value supplied is not a string; on a string it resolves to what \<open>compare\<close> says.
\<close>

definition bcrypt_compare ::
  "(js_string \<Rightarrow> js_string \<Rightarrow> bool) \<Rightarrow> body_value \<Rightarrow> js_string \<Rightarrow> exn + bool" where
  "bcrypt_compare compare supplied hash =
     (case supplied of
        Text p \<Rightarrow> Inr (compare p hash)
      | Absent \<Rightarrow> Inl (Error (lit ''data and hash arguments required''))
      | NonText t s \<Rightarrow> Inl (Error (lit ''data and hash must be strings'')))"

definition invalid_credentials :: response where
  "invalid_credentials = \<lparr> status = 401, body = JObj [(''error'', JStr (lit ''Invalid credentials.''))] \<rparr>"

definition login_failed :: response where
  "login_failed = \<lparr> status = 500, body = JObj [(''error'', JStr (lit ''Server error during login.''))] \<rparr>"

text \<open>
  The \<^verbatim>\<open>try\<close> block of \<^verbatim>\<open>POST /api/auth/login\<close>. \<open>compare\<close> is
  \<^verbatim>\<open>bcrypt.compare\<close> on two strings, \<open>sign\<close> is \<^verbatim>\<open>jwt.sign\<close> with the server's
  secret and the one-day expiry, \<open>lf\<close> is what the store does with the lookup.
\<close>

definition login_try ::
  "(js_string \<Rightarrow> js_string \<Rightarrow> bool) \<Rightarrow> (claims \<Rightarrow> js_string) \<Rightarrow> fault \<Rightarrow>
   body_value \<Rightarrow> body_value \<Rightarrow> world \<Rightarrow> exn + response" where
  "login_try compare sign lf email password w =
     (case users_lookup lf (String_of email) w of
        Inl x \<Rightarrow> Inl x
      | Inr r \<Rightarrow>
          (case (error r, data r) of
             (None, Some user) \<Rightarrow>
               (case bcrypt_compare compare password (hashed_password user) of
                  Inl x \<Rightarrow> Inl x
                | Inr isMatch \<Rightarrow>
                    if \<not> isMatch then Inr invalid_credentials
                    else
                      let token = sign \<lparr> c_userId = u_id user, c_email = u_email user, c_role = None \<rparr>
                      in Inr \<lparr> status = 200,
                               body = JObj [(''token'', JStr token),
                                            (''user'', JObj [(''id'', JStr (u_id user)),
                                                             (''fullName'', JStr (full_name user)),
                                                             (''email'', JStr (u_email user)),
                                                             (''avatarUrl'', nullable (avatar_url user))])] \<rparr>)
           | _ \<Rightarrow> Inr invalid_credentials))"

definition login ::
  "(js_string \<Rightarrow> js_string \<Rightarrow> bool) \<Rightarrow> (claims \<Rightarrow> js_string) \<Rightarrow> fault \<Rightarrow>
   body_value \<Rightarrow> body_value \<Rightarrow> world \<Rightarrow> response" where
  "login compare sign lf email password w =
     (if \<not> truthy_value email \<or> \<not> truthy_value password
      then \<lparr> status = 400, body = JObj [(''error'', JStr (lit ''Email and password are required.''))] \<rparr>
      else
        (case login_try compare sign lf email password w of
           Inl err \<Rightarrow> login_failed
         | Inr res \<Rightarrow> res))"

section \<open>The auth gate\<close>

text \<open>\<^verbatim>\<open>authHeader.split(' ')[1]\<close>; \<^verbatim>\<open>undefined\<close> when the array has one element.\<close>

definition bearer_token :: "js_string \<Rightarrow> js_string option" where
  "bearer_token authHeader =
     (case split 0x20 authHeader of
        _ # token # _ \<Rightarrow> Some token
      | _ \<Rightarrow> None)"

text \<open>
  \<^verbatim>\<open>protect\<close>. \<open>verify\<close> is \<^verbatim>\<open>jwt.verify\<close> with the server's secret: the payload
  of a token whose signature and expiry are good, \<open>None\<close> when it throws (as it does on
  \<^verbatim>\<open>undefined\<close>). The result is the response that ends the request, or the payload
  put on \<^verbatim>\<open>req.user\<close> when \<^verbatim>\<open>next()\<close> is called.
\<close>

definition no_token :: response where
  "no_token = \<lparr> status = 401,
                 body = JObj [(''error'', JStr (lit ''Not authenticated, no token provided.''))] \<rparr>"

definition invalid_token :: response where
  "invalid_token = \<lparr> status = 401,
                      body = JObj [(''error'', JStr (lit ''Not authenticated, token is invalid.''))] \<rparr>"

definition protect :: "(js_string \<Rightarrow> claims option) \<Rightarrow> js_string option \<Rightarrow> response + claims" where
  "protect verify authHeader =
     (if \<not> truthy authHeader \<or> \<not> startsWith (the authHeader) (lit ''Bearer '')
      then Inl no_token
      else
        (case Option.bind (bearer_token (the authHeader)) verify of
           Some decoded \<Rightarrow> Inr decoded
         | None \<Rightarrow> Inl invalid_token))"

text \<open>A route \<^verbatim>\<open>app.METHOD(path, protect, handler)\<close>: the handler runs only when
  \<^verbatim>\<open>protect\<close> calls \<^verbatim>\<open>next()\<close>, and it reads \<^verbatim>\<open>req.user\<close>.\<close>

definition protected_route ::
  "(js_string \<Rightarrow> claims option) \<Rightarrow> (claims \<Rightarrow> world \<Rightarrow> world \<times> response) \<Rightarrow>
   js_string option \<Rightarrow> world \<Rightarrow> world \<times> response" where
  "protected_route verify handler authHeader w =
     (case protect verify authHeader of
        Inl rejected \<Rightarrow> (w, rejected)
      | Inr user \<Rightarrow> handler user w)"

section \<open>Writes to the store\<close>

text \<open>
  Each write takes what the store does with it. An upload with \<^verbatim>\<open>upsert: false\<close> is
  refused when the path is taken; an insert into \<^verbatim>\<open>activities\<close> is refused when the
  table is missing.
\<close>

definition already_exists :: pg_error where
  "already_exists = \<lparr> pg_code = None, pg_message = Some (lit ''The resource already exists'') \<rparr>"

definition relation_missing :: pg_error where
  "relation_missing =
     \<lparr> pg_code = Some (lit ''42P01''),
       pg_message = Some (lit ''relation '' @ [0x22] @ lit ''activities'' @ [0x22] @ lit '' does not exist'') \<rparr>"

definition storage_upload :: "fault \<Rightarrow> js_string \<Rightarrow> world \<Rightarrow> world \<times> (exn + pg_error option)" where
  "storage_upload f path w =
     (case f of
        Raises x \<Rightarrow> (w, Inl x)
      | Refuses e \<Rightarrow> (w, Inr (Some e))
      | Proceeds \<Rightarrow>
          if path \<in> set (objects w) then (w, Inr (Some already_exists))
          else (w\<lparr> objects := objects w @ [path] \<rparr>, Inr None))"

definition storage_remove :: "fault \<Rightarrow> js_string list \<Rightarrow> world \<Rightarrow> world \<times> (exn + pg_error option)" where
  "storage_remove f paths w =
     (case f of
        Raises x \<Rightarrow> (w, Inl x)
      | Refuses e \<Rightarrow> (w, Inr (Some e))
      | Proceeds \<Rightarrow> (w\<lparr> objects := filter (\<lambda>p. p \<notin> set paths) (objects w) \<rparr>, Inr None))"

definition images_insert :: "fault \<Rightarrow> image \<Rightarrow> world \<Rightarrow> world \<times> (exn + image result)" where
  "images_insert f row w =
     (case f of
        Raises x \<Rightarrow> (w, Inl x)
      | Refuses e \<Rightarrow> (w, Inr \<lparr> data = None, error = Some e \<rparr>)
      | Proceeds \<Rightarrow> (w\<lparr> images := images w @ [row] \<rparr>, Inr \<lparr> data = Some row, error = None \<rparr>))"

definition images_delete :: "fault \<Rightarrow> (image \<Rightarrow> bool) \<Rightarrow> world \<Rightarrow> world \<times> (exn + pg_error option)" where
  "images_delete f matching w =
     (case f of
        Raises x \<Rightarrow> (w, Inl x)
      | Refuses e \<Rightarrow> (w, Inr (Some e))
      | Proceeds \<Rightarrow> (w\<lparr> images := filter (\<lambda>i. \<not> matching i) (images w) \<rparr>, Inr None))"

definition activities_insert :: "fault \<Rightarrow> activity \<Rightarrow> world \<Rightarrow> world \<times> (exn + pg_error option)" where
  "activities_insert f row w =
     (case f of
        Raises x \<Rightarrow> (w, Inl x)
      | Refuses e \<Rightarrow> (w, Inr (Some e))
      | Proceeds \<Rightarrow>
          (case activities w of
             None \<Rightarrow> (w, Inr (Some relation_missing))
           | Some rows \<Rightarrow> (w\<lparr> activities := Some (rows @ [row]) \<rparr>, Inr None)))"

text \<open>
  What a request meets outside the server: the clock, the identifiers the store gives to
  the rows inserted, the answer of the image generator, and what the store does with each
  write.
\<close>

datatype fetch_outcome = FetchThrows exn | HttpResponse nat

record env =
  now :: nat
  image_row_id :: ident
  activity_row_id :: ident
  generator :: fetch_outcome
  upload_fault :: fault
  remove_fault :: fault
  images_fault :: fault
  activities_fault :: fault

section \<open>Activity logging\<close>

text \<open>
  The \<^verbatim>\<open>try\<close> block of \<^verbatim>\<open>logActivity\<close>. With an error that is not
  \<^verbatim>\<open>PGRST116\<close>, \<^verbatim>\<open>error.message.includes(...)\<close> is evaluated, which throws a
  \<^verbatim>\<open>TypeError\<close> when the error carries no message.
\<close>

definition logActivity_try :: "fault \<Rightarrow> activity \<Rightarrow> world \<Rightarrow> world \<times> (exn + unit)" where
  "logActivity_try f row w =
     (case activities_insert f row w of
        (w', Inl x) \<Rightarrow> (w', Inl x)
      | (w', Inr None) \<Rightarrow> (w', Inr ())
      | (w', Inr (Some err)) \<Rightarrow>
          if pg_code err = Some (lit ''PGRST116'') then (w', Inr ())
          else (case pg_message err of
                  None \<Rightarrow> (w', Inl (Error (lit ''Cannot read properties of undefined (reading 'includes')'')))
                | Some m \<Rightarrow> (w', Inr ())))"

text \<open>
  \<^verbatim>\<open>logActivity\<close>: the \<^verbatim>\<open>catch\<close> block writes to the console only; it reads
  \<^verbatim>\<open>err.message\<close> of the value caught, which does not throw.
\<close>

definition logActivity ::
  "fault \<Rightarrow> ident \<Rightarrow> nat \<Rightarrow> ident \<Rightarrow> js_string \<Rightarrow> ident option \<Rightarrow> (string \<times> json) list \<Rightarrow>
   world \<Rightarrow> world \<times> (exn + unit)" where
  "logActivity f new_id time userId action imageId additionalData w =
     (case logActivity_try f
             \<lparr> a_id = new_id, a_user_id = userId, a_action = action, image_id = imageId,
               timestamp = time, additional_data = additionalData \<rparr> w of
        (w', Inl err) \<Rightarrow> (w', Inr ())
      | (w', Inr u) \<Rightarrow> (w', Inr ()))"

text \<open>\<^verbatim>\<open>POST /api/activities/log\<close>, behind \<^verbatim>\<open>protect\<close>.\<close>

definition activities_log ::
  "env \<Rightarrow> js_string option \<Rightarrow> ident option \<Rightarrow> (string \<times> json) list option \<Rightarrow>
   claims \<Rightarrow> world \<Rightarrow> world \<times> response" where
  "activities_log e action imageId additionalData user w =
     (if \<not> truthy action
      then (w, \<lparr> status = 400, body = JObj [(''error'', JStr (lit ''Action is required''))] \<rparr>)
      else
        (case logActivity (activities_fault e) (activity_row_id e) (now e) (c_userId user) (the action)
                imageId (case additionalData of None \<Rightarrow> [] | Some d \<Rightarrow> d) w of
           (w', Inl err) \<Rightarrow>
             (w', \<lparr> status = 500,
                     body = JObj ((''error'', JStr (lit ''Failed to log activity''))
                                  # opt_prop ''details'' (exn_message err)) \<rparr>)
         | (w', Inr u) \<Rightarrow>
             (w', \<lparr> status = 200,
                     body = JObj [(''success'', JBool True),
                                  (''message'', JStr (lit ''Activity logged successfully''))] \<rparr>)))"

section \<open>Image generation and deletion\<close>

text \<open>A number in a template string, in decimal.\<close>

fun dec :: "nat \<Rightarrow> js_string" where
  "dec n = (if n < 10 then [of_nat (48 + n)] else dec (n div 10) @ [of_nat (48 + n mod 10)])"

declare dec.simps [simp del]

text \<open>
  The \<^verbatim>\<open>try\<close> block of \<^verbatim>\<open>POST /api/generate-image\<close>. \<open>getPublicUrl\<close> is the
  storage client's function of that name; \<^verbatim>\<open>response.ok\<close> is a status from 200 to
  299; the content of the picture is not kept.
\<close>

definition generate_image_try ::
  "(js_string \<Rightarrow> js_string) \<Rightarrow> env \<Rightarrow> js_string \<Rightarrow> ident \<Rightarrow> world \<Rightarrow> world \<times> (exn + response)" where
  "generate_image_try getPublicUrl e prompt userId w =
     (case generator e of
        FetchThrows x \<Rightarrow> (w, Inl x)
      | HttpResponse st \<Rightarrow>
          if \<not> (200 \<le> st \<and> st \<le> 299) then (w, Inl (Error (lit ''Colab API error: '' @ dec st)))
          else
            let fileName = userId @ lit ''_'' @ dec (now e) @ lit ''_generated.png'';
                filePath = lit ''generated/'' @ fileName
            in (case storage_upload (upload_fault e) filePath w of
                  (w1, Inl x) \<Rightarrow> (w1, Inl x)
                | (w1, Inr (Some uploadError)) \<Rightarrow> (w1, Inl (Rejected uploadError))
                | (w1, Inr None) \<Rightarrow>
                    let imageUrl = getPublicUrl filePath in
                    (case images_insert (images_fault e)
                            \<lparr> i_id = image_row_id e, i_user_id = userId, i_prompt = prompt,
                              image_url = imageUrl, file_path = filePath, i_created_at = now e \<rparr> w1 of
                       (w2, Inl x) \<Rightarrow> (w2, Inl x)
                     | (w2, Inr r) \<Rightarrow>
                         (case error r of
                            Some dbError \<Rightarrow> (w2, Inl (Rejected dbError))
                          | None \<Rightarrow>
                              (case data r of
                                 None \<Rightarrow>
                                   (w2, Inl (Error (lit ''Cannot read properties of null (reading 'id')'')))
                               | Some imageRecord \<Rightarrow>
                                   (case logActivity (activities_fault e) (activity_row_id e) (now e)
                                           userId (lit ''generate'') (Some (i_id imageRecord))
                                           [(''prompt'', JStr (take 100 prompt))] w2 of
                                      (w3, Inl x) \<Rightarrow> (w3, Inl x)
                                    | (w3, Inr u) \<Rightarrow>
                                        (w3, Inr \<lparr> status = 200,
                                                   body = JObj [(''success'', JBool True),
                                                                (''imageUrl'', JStr imageUrl),
                                                                (''imageId'', JStr (i_id imageRecord)),
                                                                (''message'',
                                                                   JStr (lit ''Image generated successfully''))] \<rparr>)))))))"

definition generate_image ::
  "(js_string \<Rightarrow> js_string) \<Rightarrow> env \<Rightarrow> js_string option \<Rightarrow> claims \<Rightarrow> world \<Rightarrow> world \<times> response" where
  "generate_image getPublicUrl e prompt user w =
     (if \<not> truthy prompt
      then (w, \<lparr> status = 400, body = JObj [(''error'', JStr (lit ''Prompt is required''))] \<rparr>)
      else
        (case generate_image_try getPublicUrl e (the prompt) (c_userId user) w of
           (w', Inl err) \<Rightarrow>
             (w', \<lparr> status = 500,
                     body = JObj ((''error'', JStr (lit ''Failed to generate image''))
                                  # opt_prop ''details'' (exn_message err)) \<rparr>)
         | (w', Inr res) \<Rightarrow> (w', res)))"

definition msg_image_missing :: js_string where
  "msg_image_missing = lit ''H'' @ [0x00EC] @ lit ''nh '' @ [0x1EA3] @ lit ''nh kh'' @ [0x00F4]
     @ lit ''ng t'' @ [0x1ED3] @ lit ''n t'' @ [0x1EA1] @ lit ''i ho'' @ [0x1EB7] @ lit ''c kh''
     @ [0x00F4] @ lit ''ng thu'' @ [0x1ED9] @ lit ''c v'' @ [0x1EC1] @ lit '' b'' @ [0x1EA1]
     @ lit ''n.''"

definition msg_image_deleted :: js_string where
  "msg_image_deleted = lit ''H'' @ [0x00EC] @ lit ''nh '' @ [0x1EA3] @ lit ''nh '' @ [0x0111, 0x00E3]
     @ lit '' '' @ [0x0111, 0x01B0, 0x1EE3] @ lit ''c x'' @ [0x00F3] @ lit ''a th'' @ [0x00E0]
     @ lit ''nh c'' @ [0x00F4] @ lit ''ng!''"

definition msg_delete_failed :: js_string where
  "msg_delete_failed = lit ''L'' @ [0x1ED7] @ lit ''i h'' @ [0x1EC7] @ lit '' th'' @ [0x1ED1]
     @ lit ''ng trong qu'' @ [0x00E1] @ lit '' tr'' @ [0x00EC] @ lit ''nh x'' @ [0x00F3]
     @ lit ''a h'' @ [0x00EC] @ lit ''nh '' @ [0x1EA3] @ lit ''nh.''"

text \<open>
  The \<^verbatim>\<open>try\<close> block of \<^verbatim>\<open>DELETE /api/images/:imageId\<close>. A storage error is
  written to the console and the deletion goes on.
\<close>

definition delete_image_try :: "env \<Rightarrow> ident \<Rightarrow> ident \<Rightarrow> world \<Rightarrow> world \<times> (exn + response)" where
  "delete_image_try e imageId userId w =
     (let r = single (filter (\<lambda>i. i_id i = imageId \<and> i_user_id i = userId) (images w)) in
      case error r of
        Some fetchError \<Rightarrow> (w, Inl (Rejected fetchError))
      | None \<Rightarrow>
          (case data r of
             None \<Rightarrow>
               (w, Inr \<lparr> status = 404,
                         body = JObj [(''success'', JBool False), (''error'', JStr msg_image_missing)] \<rparr>)
           | Some img \<Rightarrow>
               (case (if file_path img \<noteq> []
                      then storage_remove (remove_fault e) [file_path img] w
                      else (w, Inr None)) of
                  (w1, Inl x) \<Rightarrow> (w1, Inl x)
                | (w1, Inr storageError) \<Rightarrow>
                    (case images_delete (images_fault e)
                            (\<lambda>i. i_id i = imageId \<and> i_user_id i = userId) w1 of
                       (w2, Inl x) \<Rightarrow> (w2, Inl x)
                     | (w2, Inr (Some deleteError)) \<Rightarrow> (w2, Inl (Rejected deleteError))
                     | (w2, Inr None) \<Rightarrow>
                         (case logActivity (activities_fault e) (activity_row_id e) (now e) userId
                                 (lit ''delete'') (Some imageId)
                                 [(''imageUrl'', JStr (image_url img))] w2 of
                            (w3, Inl x) \<Rightarrow> (w3, Inl x)
                          | (w3, Inr u) \<Rightarrow>
                              (w3, Inr \<lparr> status = 200,
                                         body = JObj [(''success'', JBool True),
                                                      (''message'', JStr msg_image_deleted)] \<rparr>))))))"

definition delete_image :: "env \<Rightarrow> ident \<Rightarrow> claims \<Rightarrow> world \<Rightarrow> world \<times> response" where
  "delete_image e imageId user w =
     (case delete_image_try e imageId (c_userId user) w of
        (w', Inl err) \<Rightarrow>
          (w', \<lparr> status = 500,
                  body = JObj ([(''success'', JBool False), (''error'', JStr msg_delete_failed)]
                               @ opt_prop ''details'' (exn_message err)) \<rparr>)
      | (w', Inr res) \<Rightarrow> (w', res))"

section \<open>Numbers\<close>

text \<open>
  A JavaScript number: a real, \<^verbatim>\<open>NaN\<close> or an infinity. Rounding, overflow and the
  sign of zero are outside the model; on integers below \<open>2^53\<close> the operations below
  are exact, and there the ceiling of the double-precision quotient is the ceiling of the
  exact quotient.
\<close>

datatype js_number = Num real | NaN | PosInfinity | NegInfinity

fun js_neg :: "js_number \<Rightarrow> js_number" where
  "js_neg (Num a) = Num (- a)"
| "js_neg NaN = NaN"
| "js_neg PosInfinity = NegInfinity"
| "js_neg NegInfinity = PosInfinity"

fun js_add :: "js_number \<Rightarrow> js_number \<Rightarrow> js_number" where
  "js_add (Num a) (Num b) = Num (a + b)"
| "js_add NaN b = NaN"
| "js_add a NaN = NaN"
| "js_add PosInfinity NegInfinity = NaN"
| "js_add NegInfinity PosInfinity = NaN"
| "js_add PosInfinity b = PosInfinity"
| "js_add NegInfinity b = NegInfinity"
| "js_add (Num a) b = b"

definition js_sub :: "js_number \<Rightarrow> js_number \<Rightarrow> js_number" where
  "js_sub a b = js_add a (js_neg b)"

text \<open>An infinity times a real.\<close>

definition scaled :: "js_number \<Rightarrow> real \<Rightarrow> js_number" where
  "scaled i a = (if a = 0 then NaN else if 0 < a then i else js_neg i)"

fun js_mul :: "js_number \<Rightarrow> js_number \<Rightarrow> js_number" where
  "js_mul (Num a) (Num b) = Num (a * b)"
| "js_mul NaN b = NaN"
| "js_mul a NaN = NaN"
| "js_mul (Num a) b = scaled b a"
| "js_mul a (Num b) = scaled a b"
| "js_mul PosInfinity b = b"
| "js_mul NegInfinity b = js_neg b"

fun js_div :: "js_number \<Rightarrow> js_number \<Rightarrow> js_number" where
  "js_div (Num a) (Num b) =
     (if b = 0 then (if a = 0 then NaN else if 0 < a then PosInfinity else NegInfinity)
      else Num (a / b))"
| "js_div NaN b = NaN"
| "js_div a NaN = NaN"
| "js_div (Num a) b = Num 0"
| "js_div a (Num b) = (if 0 \<le> b then a else js_neg a)"
| "js_div a b = NaN"

fun Math_ceil :: "js_number \<Rightarrow> js_number" where
  "Math_ceil (Num a) = Num (of_int \<lceil>a\<rceil>)"
| "Math_ceil a = a"

text \<open>\<^verbatim>\<open>res.json\<close> writes \<^verbatim>\<open>NaN\<close> and the infinities as \<^verbatim>\<open>null\<close>.\<close>

fun json_number :: "js_number \<Rightarrow> json" where
  "json_number (Num a) = JNum a"
| "json_number a = JNull"

section \<open>Paginated listings\<close>

text \<open>
  \<^verbatim>\<open>page\<close> and \<^verbatim>\<open>limit\<close> arrive as text in the query string and the handlers
  read them in two ways: the arithmetic operators (\<^verbatim>\<open>(page - 1) * limit\<close>,
  \<^verbatim>\<open>total / limit\<close>) take \<^verbatim>\<open>Number(v)\<close>, and \<^verbatim>\<open>parseInt(v)\<close> is called for
  the size of the range and for the values reported. A parameter is given by the two
  readings: \<^verbatim>\<open>10\<close> is read as 10 and 10, \<^verbatim>\<open>1e3\<close> as 1000 and 1, \<^verbatim>\<open>abc\<close> as
  \<^verbatim>\<open>NaN\<close> and \<^verbatim>\<open>NaN\<close>. An absent parameter takes a numeric default, which both
  readings leave as it is.
\<close>

record query_value =
  as_Number :: js_number
  as_parseInt :: js_number

definition numeric :: "real \<Rightarrow> query_value" where
  "numeric d = \<lparr> as_Number = Num d, as_parseInt = Num d \<rparr>"

text \<open>A destructuring default: \<^verbatim>\<open>const { page = 1 } = req.query\<close>.\<close>

fun with_default :: "'a \<Rightarrow> 'a option \<Rightarrow> 'a" where
  "with_default d None = d"
| "with_default d (Some v) = v"

text \<open>\<^verbatim>\<open>.order(column, { ascending: false })\<close>; rows with equal keys keep their order.\<close>

definition order_desc :: "('a \<Rightarrow> nat) \<Rightarrow> 'a list \<Rightarrow> 'a list" where
  "order_desc k rows = sort_key (\<lambda>r. - int (k r)) rows"

text \<open>
  \<^verbatim>\<open>.range(from, to)\<close> asks for offset \<open>from\<close> and limit \<open>to - from + 1\<close>; the
  store rejects an offset or a limit that is not a non-negative integer.
\<close>

definition invalid_range :: pg_error where
  "invalid_range = \<lparr> pg_code = Some (lit ''2201X''),
                      pg_message = Some (lit ''OFFSET must not be negative'') \<rparr>"

definition range_rows :: "js_number \<Rightarrow> js_number \<Rightarrow> 'a list \<Rightarrow> 'a list result" where
  "range_rows from to rows =
     (case (from, js_add (js_sub to from) (Num 1)) of
        (Num offset, Num amount) \<Rightarrow>
          if of_int \<lfloor>offset\<rfloor> = offset \<and> 0 \<le> offset \<and> of_int \<lfloor>amount\<rfloor> = amount \<and> 0 \<le> amount
          then \<lparr> data = Some (take (nat \<lfloor>amount\<rfloor>) (drop (nat \<lfloor>offset\<rfloor>) rows)), error = None \<rparr>
          else \<lparr> data = None, error = Some invalid_range \<rparr>
      | _ \<Rightarrow> \<lparr> data = None, error = Some invalid_range \<rparr>)"

definition user_json :: "user \<Rightarrow> json" where
  "user_json u =
     JObj [(''id'', JStr (u_id u)), (''full_name'', JStr (full_name u)), (''email'', JStr (u_email u)),
           (''bio'', nullable (bio u)), (''avatar_url'', nullable (avatar_url u)),
           (''created_at'', JNum (real (u_created_at u))), (''updated_at'', JNum (real (updated_at u)))]"

definition filter_rejected :: pg_error where
  "filter_rejected = \<lparr> pg_code = Some (lit ''PGRST100''),
                        pg_message = Some (lit ''failed to parse logic tree'') \<rparr>"

text \<open>
  The \<^verbatim>\<open>try\<close> block of \<^verbatim>\<open>GET /api/admin/users\<close>, behind \<^verbatim>\<open>adminProtect\<close>.
  \<open>or_filter\<close> is the store's reading of the string given to \<^verbatim>\<open>.or(...)\<close>: the
  rows it keeps, or \<open>None\<close> when it rejects the string. The second query counts the
  whole table.
\<close>

definition admin_users_try ::
  "(js_string \<Rightarrow> (user \<Rightarrow> bool) option) \<Rightarrow> query_value \<Rightarrow> query_value \<Rightarrow> js_string \<Rightarrow> world \<Rightarrow>
   exn + response" where
  "admin_users_try or_filter page limit search w =
     (let offset = js_mul (js_sub (as_Number page) (Num 1)) (as_Number limit);
          to = js_sub (js_add offset (as_parseInt limit)) (Num 1);
          ordered = order_desc u_created_at (users w);
          query =
            (if search \<noteq> []
             then (case or_filter (lit ''full_name.ilike.%'' @ search @ lit ''%,email.ilike.%''
                                   @ search @ lit ''%'') of
                     None \<Rightarrow> \<lparr> data = None, error = Some filter_rejected \<rparr>
                   | Some keep \<Rightarrow> range_rows offset to (filter keep ordered))
             else range_rows offset to ordered)
      in case error query of
           Some err \<Rightarrow> Inl (Rejected err)
         | None \<Rightarrow>
             let totalUsers = Num (real (length (users w))) in
             Inr \<lparr> status = 200,
                   body = JObj [(''success'', JBool True),
                                (''users'', JArr (map user_json (with_default [] (data query)))),
                                (''pagination'',
                                   JObj [(''currentPage'', json_number (as_parseInt page)),
                                         (''totalPages'',
                                            json_number (Math_ceil (js_div totalUsers (as_Number limit)))),
                                         (''totalUsers'', json_number totalUsers),
                                         (''limit'', json_number (as_parseInt limit))])] \<rparr>)"

definition admin_users ::
  "(js_string \<Rightarrow> (user \<Rightarrow> bool) option) \<Rightarrow> query_value option \<Rightarrow> query_value option \<Rightarrow>
   js_string option \<Rightarrow> world \<Rightarrow> response" where
  "admin_users or_filter page limit search w =
     (case admin_users_try or_filter (with_default (numeric 1) page) (with_default (numeric 10) limit)
             (with_default [] search) w of
        Inl err \<Rightarrow>
          \<lparr> status = 500,
            body = JObj ((''error'', JStr (lit ''Failed to fetch users''))
                         # opt_prop ''details'' (exn_message err)) \<rparr>
      | Inr res \<Rightarrow> res)"

text \<open>A row of the activities listing: the columns selected and the image joined through
  \<^verbatim>\<open>image_id\<close>, \<^verbatim>\<open>null\<close> when there is none.\<close>

definition activity_json :: "image list \<Rightarrow> activity \<Rightarrow> json" where
  "activity_json imgs a =
     JObj [(''id'', JStr (a_id a)), (''action'', JStr (a_action a)),
           (''image_id'', nullable (image_id a)),
           (''timestamp'', JNum (real (timestamp a))),
           (''additional_data'', JObj (additional_data a)),
           (''images'',
              (case Option.bind (image_id a) (\<lambda>i. find (\<lambda>im. i_id im = i) imgs) of
                 None \<Rightarrow> JNull
               | Some im \<Rightarrow>
                   JObj [(''id'', JStr (i_id im)), (''prompt'', JStr (i_prompt im)),
                         (''image_url'', JStr (image_url im))]))]"

definition activities_missing :: response where
  "activities_missing =
     \<lparr> status = 500,
       body = JObj [(''error'', JStr (lit ''Activities table not found'')),
                    (''details'', JStr (lit ''Please create the activities table first by running the SQL script in create_activity_table.sql'')),
                    (''suggestion'', JStr (lit ''Go to Supabase SQL Editor and run the create_activity_table.sql script''))] \<rparr>"

text \<open>The \<^verbatim>\<open>try\<close> block of \<^verbatim>\<open>GET /api/activities\<close>.\<close>

definition get_activities_try ::
  "query_value \<Rightarrow> query_value \<Rightarrow> js_string \<Rightarrow> ident \<Rightarrow> world \<Rightarrow> exn + response" where
  "get_activities_try page limit action userId w =
     (let offset = js_mul (js_sub (as_Number page) (Num 1)) (as_Number limit);
          to = js_sub (js_add offset (as_parseInt limit)) (Num 1)
      in
      case activities w of
        None \<Rightarrow> Inr activities_missing
      | Some table \<Rightarrow>
          let ordered = order_desc timestamp (filter (\<lambda>a. a_user_id a = userId) table);
              filtered = (if action \<noteq> [] then filter (\<lambda>a. a_action a = action) ordered else ordered);
              query = range_rows offset to filtered
          in case error query of
               Some err \<Rightarrow> Inl (Rejected err)
             | None \<Rightarrow>
                 let counted = filter (\<lambda>a. a_user_id a = userId) table;
                     countQuery = (if action \<noteq> [] then filter (\<lambda>a. a_action a = action) counted
                                   else counted);
                     totalActivities = Num (real (length countQuery))
                 in Inr \<lparr> status = 200,
                          body = JObj [(''success'', JBool True),
                                       (''activities'',
                                          JArr (map (activity_json (images w)) (with_default [] (data query)))),
                                       (''pagination'',
                                          JObj [(''currentPage'', json_number (as_parseInt page)),
                                                (''totalPages'',
                                                   json_number (Math_ceil (js_div totalActivities
                                                                             (as_Number limit)))),
                                                (''totalActivities'', json_number totalActivities),
                                                (''limit'', json_number (as_parseInt limit))])] \<rparr>)"

definition get_activities ::
  "query_value option \<Rightarrow> query_value option \<Rightarrow> js_string option \<Rightarrow> claims \<Rightarrow> world \<Rightarrow> response" where
  "get_activities page limit action user w =
     (case get_activities_try (with_default (numeric 1) page) (with_default (numeric 20) limit)
             (with_default [] action) (c_userId user) w of
        Inl err \<Rightarrow>
          \<lparr> status = 500,
            body = JObj ((''error'', JStr (lit ''Failed to fetch activities''))
                         # opt_prop ''details'' (exn_message err)
                         @ [(''suggestion'',
                             JStr (lit ''Make sure the activities table exists in your Supabase database''))]) \<rparr>
      | Inr res \<Rightarrow> res)"

text \<open>Reading a field of the \<^verbatim>\<open>pagination\<close> object of a response.\<close>

definition pagination :: "string \<Rightarrow> response \<Rightarrow> json option" where
  "pagination k res = Option.bind (field ''pagination'' (body res)) (field k)"

section \<open>A sample deployment\<close>

text \<open>
  Three users, one picture of the first user, three activities of the first user and one
  of the second, with stand-ins for the hashing, token and storage libraries. The theorems below hold for every store and
  every library; the sample shows them at work.
\<close>

definition alice :: user where
  "alice = \<lparr> u_id = lit ''u1'', full_name = lit ''Alice'', u_email = lit ''alice@example.com'',
             hashed_password = lit ''hash:Secret!9'', bio = None, avatar_url = None,
             u_created_at = 1, updated_at = 1 \<rparr>"

definition bob :: user where
  "bob = \<lparr> u_id = lit ''u2'', full_name = lit ''Bob'', u_email = lit ''bob@example.com'',
           hashed_password = lit ''hash:Passw0rd?'', bio = None, avatar_url = None,
           u_created_at = 2, updated_at = 2 \<rparr>"

definition fox :: image where
  "fox = \<lparr> i_id = lit ''img1'', i_user_id = lit ''u1'', i_prompt = lit ''a red fox'',
           image_url = lit ''https://cdn/generated/u1_5_generated.png'',
           file_path = lit ''generated/u1_5_generated.png'', i_created_at = 5 \<rparr>"

definition carol :: user where
  "carol = \<lparr> u_id = lit ''u3'', full_name = lit ''Carol'', u_email = lit ''carol@example.com'',
             hashed_password = lit ''hash:Tr1cky|pw'', bio = None, avatar_url = None,
             u_created_at = 3, updated_at = 3 \<rparr>"

definition alice_generated :: activity where
  "alice_generated = \<lparr> a_id = lit ''a1'', a_user_id = lit ''u1'', a_action = lit ''generate'',
                        image_id = Some (lit ''img1''), timestamp = 5,
                        additional_data = [(''prompt'', JStr (lit ''a red fox''))] \<rparr>"

definition bob_downloaded :: activity where
  "bob_downloaded = \<lparr> a_id = lit ''a2'', a_user_id = lit ''u2'', a_action = lit ''download'',
                       image_id = Some (lit ''img1''), timestamp = 6, additional_data = [] \<rparr>"

definition alice_downloaded :: activity where
  "alice_downloaded = \<lparr> a_id = lit ''a3'', a_user_id = lit ''u1'', a_action = lit ''download'',
                         image_id = Some (lit ''img1''), timestamp = 8, additional_data = [] \<rparr>"

definition alice_viewed :: activity where
  "alice_viewed = \<lparr> a_id = lit ''a4'', a_user_id = lit ''u1'', a_action = lit ''view'',
                     image_id = None, timestamp = 9, additional_data = [] \<rparr>"

definition carol_viewed :: activity where
  "carol_viewed = \<lparr> a_id = lit ''a5'', a_user_id = lit ''u3'', a_action = lit ''view'',
                     image_id = Some (lit ''img1''), timestamp = 10, additional_data = [] \<rparr>"

definition sample_world :: world where
  "sample_world = \<lparr> users = [alice, bob, carol], images = [fox],
                     activities = Some [alice_generated, bob_downloaded, alice_downloaded, alice_viewed],
                     objects = [lit ''generated/u1_5_generated.png''] \<rparr>"

text \<open>The same store with other activities of the second and third user.\<close>

definition other_world :: world where
  "other_world = sample_world \<lparr> activities :=
                   Some [carol_viewed, alice_generated, alice_downloaded, alice_viewed] \<rparr>"

definition alice_claims :: claims where
  "alice_claims = \<lparr> c_userId = lit ''u1'', c_email = lit ''alice@example.com'', c_role = None \<rparr>"

definition bob_claims :: claims where
  "bob_claims = \<lparr> c_userId = lit ''u2'', c_email = lit ''bob@example.com'', c_role = None \<rparr>"

definition sample_env :: env where
  "sample_env = \<lparr> now = 11, image_row_id = lit ''img2'', activity_row_id = lit ''a6'',
                   generator = HttpResponse 200, upload_fault = Proceeds, remove_fault = Proceeds,
                   images_fault = Proceeds, activities_fault = Proceeds \<rparr>"

definition sample_hash :: "js_string \<Rightarrow> js_string" where
  "sample_hash p = lit ''hash:'' @ p"

definition sample_compare :: "js_string \<Rightarrow> js_string \<Rightarrow> bool" where
  "sample_compare p h = (h = sample_hash p)"

definition sample_sign :: "claims \<Rightarrow> js_string" where
  "sample_sign c = lit ''token-of-'' @ c_userId c"

definition sample_verify :: "js_string \<Rightarrow> claims option" where
  "sample_verify token =
     (if token = lit ''token-of-u1'' then Some alice_claims
      else if token = lit ''token-of-u2'' then Some bob_claims
      else None)"

definition sample_public_url :: "js_string \<Rightarrow> js_string" where
  "sample_public_url path = lit ''https://cdn/'' @ path"

definition sample_or_filter :: "js_string \<Rightarrow> (user \<Rightarrow> bool) option" where
  "sample_or_filter s =
     (if s = lit ''full_name.ilike.%alice%,email.ilike.%alice%''
      then Some (\<lambda>u. u_email u = lit ''alice@example.com'')
      else if s = lit ''full_name.ilike.%example%,email.ilike.%example%''
      then Some (\<lambda>u. True)
      else None)"


text \<open>The query value \<^verbatim>\<open>1e3\<close>: \<^verbatim>\<open>Number('1e3')\<close> is 1000 and
  \<^verbatim>\<open>parseInt('1e3')\<close> is 1.\<close>

definition one_e3 :: query_value where
  "one_e3 = \<lparr> as_Number = Num 1000, as_parseInt = Num 1 \<rparr>"

definition sample_handler :: "claims \<Rightarrow> world \<Rightarrow> world \<times> response" where
  "sample_handler user w = (w, \<lparr> status = 200, body = JStr (c_userId user) \<rparr>)"

section \<open>Properties of the password policy\<close>

lemma class_matches_iff: "class_matches cls c \<longleftrightarrow> (\<exists>i \<in> set cls. item_matches i c)"
  by (induction cls) auto

lemma regex_test_iff: "regex_test cls s \<longleftrightarrow> (\<exists>c \<in> set s. class_matches cls c)"
  by (induction s) auto

lemma regex_test_uppercase:
  "regex_test uppercase_class s \<longleftrightarrow> (\<exists>c \<in> set s. 0x41 \<le> c \<and> c \<le> 0x5A)"
  by (simp add: regex_test_iff uppercase_class_def)

lemma regex_test_special:
  "regex_test special_class s \<longleftrightarrow> (\<exists>c \<in> set s. c \<in> set special_chars)"
  by (auto simp: regex_test_iff class_matches_iff special_class_def)

lemma msgs_distinct: "distinct [msg_minLength, msg_hasUppercase, msg_hasSpecialChar]"
  by (simp add: msg_minLength_def msg_hasUppercase_def msg_hasSpecialChar_def lit_def)

text \<open>
  C1: for every string, \<open>validatePassword\<close> reports it valid exactly when it has at least
  8 code units, contains an uppercase ASCII letter (\<open>A\<close> to \<open>Z\<close>, code units 0x41 to
  0x5A) and contains a character of the special-character set; each rule that fails puts
  its own message into the result, each rule that holds leaves its entry \<open>null\<close>, and the
  three messages are pairwise different.
\<close>

theorem validatePassword_policy:
  "(isValid (validatePassword p) \<longleftrightarrow>
      8 \<le> length p \<and> (\<exists>c \<in> set p. 0x41 \<le> c \<and> c \<le> 0x5A) \<and> (\<exists>c \<in> set p. c \<in> set special_chars))
   \<and> err_minLength (errors (validatePassword p))
        = (if length p < 8 then Some msg_minLength else None)
   \<and> err_hasUppercase (errors (validatePassword p))
        = (if (\<exists>c \<in> set p. 0x41 \<le> c \<and> c \<le> 0x5A) then None else Some msg_hasUppercase)
   \<and> err_hasSpecialChar (errors (validatePassword p))
        = (if (\<exists>c \<in> set p. c \<in> set special_chars) then None else Some msg_hasSpecialChar)
   \<and> distinct [msg_minLength, msg_hasUppercase, msg_hasSpecialChar]"
  unfolding validatePassword_def Let_def
  by (simp only: regex_test_uppercase regex_test_special msgs_distinct
        password_validation.simps password_errors.simps not_le simp_thms if_not_P if_P
        split: if_splits) auto

theorem validatePassword_policy_witness:
  "isValid (validatePassword (lit ''Secret!9'')) \<and>
   \<not> isValid (validatePassword (lit ''secret'')) \<and>
   err_minLength (errors (validatePassword (lit ''secret''))) = Some msg_minLength \<and>
   err_hasUppercase (errors (validatePassword (lit ''secret''))) = Some msg_hasUppercase \<and>
   err_hasSpecialChar (errors (validatePassword (lit ''secret''))) = Some msg_hasSpecialChar \<and>
   err_minLength (errors (validatePassword (lit ''Secret!9''))) = None"
  using validatePassword_policy [of "lit ''Secret!9''"] validatePassword_policy [of "lit ''secret''"]
  by (simp add: lit_def special_chars_def)

section \<open>Properties of login\<close>


lemma single_cases:
  "(\<exists>r. rows = [r] \<and> single rows = \<lparr> data = Some r, error = None \<rparr>)
   \<or> ((\<forall>r. rows \<noteq> [r]) \<and> single rows = \<lparr> data = None, error = Some pgrst116 \<rparr>)"
  by (cases rows rule: single.cases) auto

text \<open>With a password that is a string, a login whose lookup the store answers is rejected
  with 401 whenever no row with the email has a matching hash: no such row, or a wrong
  password.\<close>

lemma login_text_password_rejected:
  assumes "truthy_value email" "p \<noteq> []"
    and "\<forall>u \<in> set (users w). u_email u = String_of email \<longrightarrow> \<not> compare p (hashed_password u)"
  shows "login compare sign Proceeds email (Text p) w = invalid_credentials"
proof -
  let ?rows = "filter (\<lambda>u. u_email u = String_of email) (users w)"
  from single_cases [of ?rows] show ?thesis
  proof
    assume "\<exists>r. ?rows = [r] \<and> single ?rows = \<lparr> data = Some r, error = None \<rparr>"
    then obtain r where r: "?rows = [r]" and s: "single ?rows = \<lparr> data = Some r, error = None \<rparr>"
      by blast
    from r have "r \<in> set ?rows" by simp
    then have "r \<in> set (users w)" "u_email r = String_of email" by auto
    with assms(3) have "\<not> compare p (hashed_password r)" by blast
    with assms(1,2) s show ?thesis
      by (simp add: login_def login_try_def users_lookup_def bcrypt_compare_def)
  next
    assume "(\<forall>r. ?rows \<noteq> [r]) \<and> single ?rows = \<lparr> data = None, error = Some pgrst116 \<rparr>"
    with assms(1,2) show ?thesis
      by (simp add: login_def login_try_def users_lookup_def)
  qed
qed

lemma login_missing_email:
  assumes "truthy_value email" "truthy_value password"
    and "\<forall>u \<in> set (users w). u_email u \<noteq> String_of email"
  shows "login compare sign Proceeds email password w = invalid_credentials"
proof -
  from assms(3) have "filter (\<lambda>u. u_email u = String_of email) (users w) = []"
    by (auto simp: filter_empty_conv)
  with assms(1,2) show ?thesis
    by (simp add: login_def login_try_def users_lookup_def pgrst116_def)
qed

text \<open>
  C2 (what the code does): the two failing logins get the same 401 when the password is
  a string, but not for every request. With a password that is truthy and not a string
  (a JSON number, say), a login with an email that no row has is answered 401 before
  \<^verbatim>\<open>bcrypt.compare\<close> is reached, and a login with the email of a row runs
  \<^verbatim>\<open>bcrypt.compare\<close>, whose promise is rejected, and is answered by the
  \<^verbatim>\<open>catch\<close> block: 500 with \<^verbatim>\<open>'Server error during login.'\<close>. The two responses
  differ, and tell whether the email is registered.
\<close>

theorem login_non_string_password:
  assumes "truthy_value email" "truthy_value email'"
    and missing: "\<forall>u \<in> set (users w). u_email u \<noteq> String_of email"
    and present: "filter (\<lambda>u. u_email u = String_of email') (users w') = [u]"
  shows "login compare sign Proceeds email (NonText True s) w = invalid_credentials
       \<and> login compare sign Proceeds email' (NonText True s) w' = login_failed
       \<and> status invalid_credentials = 401 \<and> status login_failed = 500"
proof -
  from assms(1) missing
  have "login compare sign Proceeds email (NonText True s) w = invalid_credentials"
    by (intro login_missing_email) simp_all
  moreover from assms(2) present
  have "login compare sign Proceeds email' (NonText True s) w' = login_failed"
    by (simp add: login_def login_try_def users_lookup_def bcrypt_compare_def)
  ultimately show ?thesis
    by (simp add: invalid_credentials_def login_failed_def)
qed

theorem login_non_string_password_witness:
  "login sample_compare sample_sign Proceeds (Text (lit ''dave@example.com''))
       (NonText True (lit ''12345'')) sample_world
     = \<lparr> status = 401, body = JObj [(''error'', JStr (lit ''Invalid credentials.''))] \<rparr>
   \<and> login sample_compare sample_sign Proceeds (Text (lit ''alice@example.com''))
       (NonText True (lit ''12345'')) sample_world
     = \<lparr> status = 500, body = JObj [(''error'', JStr (lit ''Server error during login.''))] \<rparr>
   \<and> login sample_compare sample_sign Proceeds (Text (lit ''alice@example.com''))
       (Text (lit ''12345'')) sample_world
     = \<lparr> status = 401, body = JObj [(''error'', JStr (lit ''Invalid credentials.''))] \<rparr>
   \<and> status (login sample_compare sample_sign Proceeds (Text (lit ''alice@example.com''))
                (Text (lit ''Secret!9'')) sample_world) = 200"
proof -
  have 1: "truthy_value (Text (lit ''dave@example.com''))" "truthy_value (Text (lit ''alice@example.com''))"
    by (simp_all add: lit_def)
  have 2: "\<forall>u \<in> set (users sample_world). u_email u \<noteq> String_of (Text (lit ''dave@example.com''))"
    by (simp add: sample_world_def alice_def bob_def carol_def lit_def)
  have 3: "filter (\<lambda>u. u_email u = String_of (Text (lit ''alice@example.com''))) (users sample_world) = [alice]"
    by (simp add: sample_world_def alice_def bob_def carol_def lit_def)
  have 4: "login sample_compare sample_sign Proceeds (Text (lit ''alice@example.com''))
             (Text (lit ''12345'')) sample_world = invalid_credentials"
    using 3
    by (simp add: login_def login_try_def users_lookup_def bcrypt_compare_def)
       (simp add: alice_def sample_compare_def sample_hash_def lit_def)
  have 5: "status (login sample_compare sample_sign Proceeds (Text (lit ''alice@example.com''))
                     (Text (lit ''Secret!9'')) sample_world) = 200"
    using 3
    by (simp add: login_def login_try_def users_lookup_def bcrypt_compare_def)
       (simp add: alice_def sample_compare_def sample_hash_def lit_def)
  from login_non_string_password [where compare = sample_compare and sign = sample_sign
      and s = "lit ''12345''", OF 1 2 3] 4 5
  show ?thesis
    by (simp add: invalid_credentials_def login_failed_def)
qed

section \<open>Properties of the gate\<close>

lemma startsWith_iff: "startsWith s p \<longleftrightarrow> (\<exists>r. s = p @ r)"
  by (induction s p rule: startsWith.induct) auto

lemma split_not_Nil: "split sep s \<noteq> []"
  by (induction s) (auto split: list.splits)

lemma hd_split: "hd (split sep s) = takeWhile (\<lambda>c. c \<noteq> sep) s"
  by (induction s) (auto split: list.splits simp: split_not_Nil)

lemma split_append_sep: "sep \<notin> set a \<Longrightarrow> split sep (a @ sep # r) = a # split sep r"
  by (induction a) (auto split: list.splits)

lemma bearer_token_startsWith:
  assumes "startsWith h (lit ''Bearer '')"
  shows "bearer_token h = Some (takeWhile (\<lambda>c. c \<noteq> 0x20) (drop 7 h))"
proof -
  from assms obtain r where h: "h = lit ''Bearer '' @ r"
    by (auto simp: startsWith_iff)
  have l: "lit ''Bearer '' = lit ''Bearer'' @ [0x20]"
    by (simp add: lit_def)
  have "(0x20 :: jschar) \<notin> set (lit ''Bearer'')"
    by (simp add: lit_def)
  then have "split 0x20 (lit ''Bearer'' @ 0x20 # r) = lit ''Bearer'' # split 0x20 r"
    by (rule split_append_sep)
  moreover obtain t ts where "split 0x20 r = t # ts"
    using split_not_Nil [of "0x20" r] by (cases "split 0x20 r") auto
  moreover from this have "t = takeWhile (\<lambda>c. c \<noteq> 0x20) r"
    using hd_split [of "0x20" r] by simp
  moreover have "drop 7 h = r"
    by (simp add: h lit_def)
  ultimately show ?thesis
    by (simp add: bearer_token_def h l)
qed

text \<open>
  C5: a route behind \<^verbatim>\<open>protect\<close> answers 401 without running its handler, and leaves
  the store as it was, when the \<^verbatim>\<open>Authorization\<close> header is absent, when it does not
  start with \<^verbatim>\<open>'Bearer '\<close>, and when the token it carries (the text after
  \<^verbatim>\<open>'Bearer '\<close> up to the next space) fails verification. When verification gives
  the payload \<open>decoded\<close>, the route is the handler run with \<open>decoded\<close>, and so with
  its \<^verbatim>\<open>userId\<close>, as \<^verbatim>\<open>req.user\<close>.
\<close>

theorem protect_gate:
  "protected_route verify handler None w = (w, no_token)
   \<and> status no_token = 401 \<and> status invalid_token = 401
   \<and> (\<not> startsWith h (lit ''Bearer '') \<longrightarrow> protected_route verify handler (Some h) w = (w, no_token))
   \<and> (startsWith h (lit ''Bearer '') \<longrightarrow>
        bearer_token h = Some (takeWhile (\<lambda>c. c \<noteq> 0x20) (drop 7 h))
        \<and> (verify (takeWhile (\<lambda>c. c \<noteq> 0x20) (drop 7 h)) = None \<longrightarrow>
             protected_route verify handler (Some h) w = (w, invalid_token))
        \<and> (\<forall>decoded. verify (takeWhile (\<lambda>c. c \<noteq> 0x20) (drop 7 h)) = Some decoded \<longrightarrow>
             protected_route verify handler (Some h) w = handler decoded w))"
proof (intro conjI impI allI)
  show "protected_route verify handler None w = (w, no_token)"
    by (simp add: protected_route_def protect_def)
next
  show "status no_token = 401" by (simp add: no_token_def)
next
  show "status invalid_token = 401" by (simp add: invalid_token_def)
next
  assume "\<not> startsWith h (lit ''Bearer '')"
  then show "protected_route verify handler (Some h) w = (w, no_token)"
    by (simp add: protected_route_def protect_def)
next
  assume "startsWith h (lit ''Bearer '')"
  then show "bearer_token h = Some (takeWhile (\<lambda>c. c \<noteq> 0x20) (drop 7 h))"
    by (rule bearer_token_startsWith)
next
  assume s: "startsWith h (lit ''Bearer '')"
    and v: "verify (takeWhile (\<lambda>c. c \<noteq> 0x20) (drop 7 h)) = None"
  from s have "h \<noteq> []" by (auto simp: startsWith_iff lit_def)
  with s v bearer_token_startsWith [OF s]
  show "protected_route verify handler (Some h) w = (w, invalid_token)"
    by (simp add: protected_route_def protect_def)
next
  fix decoded
  assume s: "startsWith h (lit ''Bearer '')"
    and v: "verify (takeWhile (\<lambda>c. c \<noteq> 0x20) (drop 7 h)) = Some decoded"
  from s have "h \<noteq> []" by (auto simp: startsWith_iff lit_def)
  with s v bearer_token_startsWith [OF s]
  show "protected_route verify handler (Some h) w = handler decoded w"
    by (simp add: protected_route_def protect_def)
qed

theorem protect_gate_witness:
  "protected_route sample_verify sample_handler (Some (lit ''Bearer token-of-u1'')) sample_world
     = (sample_world, \<lparr> status = 200, body = JStr (lit ''u1'') \<rparr>)
   \<and> protected_route sample_verify sample_handler (Some (lit ''Bearer expired'')) sample_world
     = (sample_world, invalid_token)
   \<and> protected_route sample_verify sample_handler (Some (lit ''token-of-u1'')) sample_world
     = (sample_world, no_token)"
proof -
  have a: "startsWith (lit ''Bearer token-of-u1'') (lit ''Bearer '')"
    and b: "startsWith (lit ''Bearer expired'') (lit ''Bearer '')"
    and c: "\<not> startsWith (lit ''token-of-u1'') (lit ''Bearer '')"
    by (simp_all add: lit_def)
  have va: "sample_verify (takeWhile (\<lambda>c. c \<noteq> 0x20) (drop 7 (lit ''Bearer token-of-u1''))) = Some alice_claims"
    and vb: "sample_verify (takeWhile (\<lambda>c. c \<noteq> 0x20) (drop 7 (lit ''Bearer expired''))) = None"
    by (simp_all add: sample_verify_def lit_def)
  from protect_gate [of sample_verify sample_handler sample_world "lit ''Bearer token-of-u1''"] a va
  have "protected_route sample_verify sample_handler (Some (lit ''Bearer token-of-u1'')) sample_world
          = sample_handler alice_claims sample_world"
    by blast
  moreover
  from protect_gate [of sample_verify sample_handler sample_world "lit ''Bearer expired''"] b vb
  have "protected_route sample_verify sample_handler (Some (lit ''Bearer expired'')) sample_world
          = (sample_world, invalid_token)"
    by blast
  moreover
  from protect_gate [of sample_verify sample_handler sample_world "lit ''token-of-u1''"] c
  have "protected_route sample_verify sample_handler (Some (lit ''token-of-u1'')) sample_world
          = (sample_world, no_token)"
    by blast
  ultimately show ?thesis
    by (simp add: sample_handler_def alice_claims_def)
qed

section \<open>Properties of registration\<close>








section \<open>Properties of activity logging\<close>

lemma logActivity_returns:
  "\<exists>w'. logActivity f new_id time userId action imageId additionalData w = (w', Inr ())"
  by (simp add: logActivity_def split: prod.splits sum.splits)

lemma case_logActivity:
  "(case logActivity f new_id time userId action imageId additionalData w of
      (w', Inl x) \<Rightarrow> A w' x
    | (w', Inr u) \<Rightarrow> B w') = B (fst (logActivity f new_id time userId action imageId additionalData w))"
  using logActivity_returns [of f new_id time userId action imageId additionalData w]
  by auto

lemma generate_image_try_response:
  "snd (generate_image_try getPublicUrl (e\<lparr> activities_fault := f \<rparr>) prompt userId (w\<lparr> activities := t \<rparr>))
   = snd (generate_image_try getPublicUrl e prompt userId w)"
  by (simp add: generate_image_try_def case_logActivity storage_upload_def images_insert_def Let_def
           split: fetch_outcome.splits fault.splits)

lemma delete_image_try_response:
  "snd (delete_image_try (e\<lparr> activities_fault := f \<rparr>) imageId userId (w\<lparr> activities := t \<rparr>))
   = snd (delete_image_try e imageId userId w)"
  by (simp add: delete_image_try_def case_logActivity storage_remove_def images_delete_def Let_def
           split: fault.splits option.splits)

lemma snd_case_prod_sum:
  "snd (case p of (w', Inl x) \<Rightarrow> (w', A x) | (w', Inr r) \<Rightarrow> (w', B r))
   = (case snd p of Inl x \<Rightarrow> A x | Inr r \<Rightarrow> B r)"
  by (simp split: prod.splits sum.splits)

text \<open>
  C7: \<open>logActivity\<close> returns normally whatever the insert into \<open>activities\<close> does
  (carried out, answered with an error, thrown, table missing), and the responses of the
  generation and of the deletion handler do not depend on it: with any behaviour \<open>f\<close>
  of the insert and any state \<open>t\<close> of the table, missing included, the response is the
  one given when the table is there and the insert is carried out.
\<close>

theorem activity_logging_never_propagates:
  "(\<exists>w'. logActivity f new_id time userId action imageId additionalData w = (w', Inr ()))
   \<and> snd (generate_image getPublicUrl (e\<lparr> activities_fault := f \<rparr>) prompt user (w\<lparr> activities := t \<rparr>))
       = snd (generate_image getPublicUrl (e\<lparr> activities_fault := Proceeds \<rparr>) prompt user
               (w\<lparr> activities := Some rows \<rparr>))
   \<and> snd (delete_image (e\<lparr> activities_fault := f \<rparr>) imageId' user (w\<lparr> activities := t \<rparr>))
       = snd (delete_image (e\<lparr> activities_fault := Proceeds \<rparr>) imageId' user
               (w\<lparr> activities := Some rows \<rparr>))"
  by (simp add: logActivity_returns generate_image_def delete_image_def snd_case_prod_sum
        generate_image_try_response delete_image_try_response)

theorem activity_logging_never_propagates_witness:
  "snd (generate_image sample_public_url (sample_env\<lparr> activities_fault := Raises (Error (lit ''fetch failed'')) \<rparr>)
          (Some (lit ''a blue bird'')) alice_claims (sample_world\<lparr> activities := None \<rparr>))
     = snd (generate_image sample_public_url (sample_env\<lparr> activities_fault := Proceeds \<rparr>)
          (Some (lit ''a blue bird'')) alice_claims (sample_world\<lparr> activities := Some [] \<rparr>))
   \<and> status (snd (generate_image sample_public_url (sample_env\<lparr> activities_fault := Proceeds \<rparr>)
          (Some (lit ''a blue bird'')) alice_claims (sample_world\<lparr> activities := Some [] \<rparr>))) = 200
   \<and> snd (delete_image (sample_env\<lparr> activities_fault := Refuses \<lparr> pg_code = None, pg_message = None \<rparr> \<rparr>)
          (lit ''img1'') alice_claims (sample_world\<lparr> activities := None \<rparr>))
     = snd (delete_image (sample_env\<lparr> activities_fault := Proceeds \<rparr>)
          (lit ''img1'') alice_claims (sample_world\<lparr> activities := Some [] \<rparr>))
   \<and> status (snd (delete_image (sample_env\<lparr> activities_fault := Proceeds \<rparr>)
          (lit ''img1'') alice_claims (sample_world\<lparr> activities := Some [] \<rparr>))) = 200"
proof -
  have g: "status (snd (generate_image sample_public_url (sample_env\<lparr> activities_fault := Proceeds \<rparr>)
          (Some (lit ''a blue bird'')) alice_claims (sample_world\<lparr> activities := Some [] \<rparr>))) = 200"
    by (simp add: generate_image_def generate_image_try_def case_logActivity storage_upload_def
          images_insert_def Let_def sample_env_def sample_world_def alice_claims_def lit_def dec.simps)
  have d: "status (snd (delete_image (sample_env\<lparr> activities_fault := Proceeds \<rparr>)
          (lit ''img1'') alice_claims (sample_world\<lparr> activities := Some [] \<rparr>))) = 200"
    by (simp add: delete_image_def delete_image_try_def case_logActivity storage_remove_def
          images_delete_def Let_def sample_env_def sample_world_def alice_claims_def fox_def lit_def)
  from activity_logging_never_propagates
         [where f = "Raises (Error (lit ''fetch failed''))" and getPublicUrl = sample_public_url
            and e = sample_env and prompt = "Some (lit ''a blue bird'')" and user = alice_claims
            and w = sample_world and t = None and rows = "[]"]
       activity_logging_never_propagates
         [where f = "Refuses \<lparr> pg_code = None, pg_message = None \<rparr>" and e = sample_env
            and imageId' = "lit ''img1''" and user = alice_claims
            and w = sample_world and t = None and rows = "[]"]
       g d
  show ?thesis by simp
qed

text \<open>
  C8: the handler of \<^verbatim>\<open>POST /api/activities/log\<close> answers 200 with
  \<^verbatim>\<open>success: true\<close> to every request with a non-empty \<^verbatim>\<open>action\<close>, whatever the
  insert into \<open>activities\<close> does, and 400 to every other request; it never answers 500.
\<close>

theorem activities_log_responses:
  "snd (activities_log e action imageId additionalData user w)
     = (if truthy action
        then \<lparr> status = 200,
               body = JObj [(''success'', JBool True),
                            (''message'', JStr (lit ''Activity logged successfully''))] \<rparr>
        else \<lparr> status = 400, body = JObj [(''error'', JStr (lit ''Action is required''))] \<rparr>)
   \<and> status (snd (activities_log e action imageId additionalData user w)) \<noteq> 500"
proof (cases "truthy action")
  case False
  then show ?thesis
    by (simp add: activities_log_def)
next
  case True
  obtain w' where "logActivity (activities_fault e) (activity_row_id e) (now e) (c_userId user)
                     (the action) imageId (case additionalData of None \<Rightarrow> [] | Some d \<Rightarrow> d) w
                   = (w', Inr ())"
    using logActivity_returns by blast
  with True show ?thesis
    by (simp add: activities_log_def)
qed

theorem activities_log_responses_witness:
  "status (snd (activities_log (sample_env\<lparr> activities_fault := Refuses \<lparr> pg_code = None, pg_message = None \<rparr> \<rparr>)
                  (Some (lit ''download'')) (Some (lit ''img1'')) None alice_claims
                  (sample_world\<lparr> activities := None \<rparr>))) = 200
   \<and> status (snd (activities_log sample_env (Some []) None None alice_claims sample_world)) = 400
   \<and> status (snd (activities_log sample_env None None None alice_claims sample_world)) = 400"
  using activities_log_responses
          [of "sample_env\<lparr> activities_fault := Refuses \<lparr> pg_code = None, pg_message = None \<rparr> \<rparr>"
              "Some (lit ''download'')" "Some (lit ''img1'')" None alice_claims
              "sample_world\<lparr> activities := None \<rparr>"]
        activities_log_responses [of sample_env "Some []" None None alice_claims sample_world]
        activities_log_responses [of sample_env None None None alice_claims sample_world]
  by (simp add: lit_def)

section \<open>Properties of image deletion\<close>

lemma delete_image_lookup:
  "error (single rows) = None \<Longrightarrow> data (single rows) \<noteq> None"
  by (cases rows rule: single.cases) auto

lemma delete_image_never_404:
  "status (snd (delete_image e imageId user w)) \<noteq> 404"
proof -
  let ?r = "single (filter (\<lambda>i. i_id i = imageId \<and> i_user_id i = c_userId user) (images w))"
  show ?thesis
  proof (cases "error ?r")
    case (Some fetchError)
    then show ?thesis
      by (simp add: delete_image_def delete_image_try_def)
  next
    case None
    with delete_image_lookup obtain img where "data ?r = Some img"
      by blast
    with None show ?thesis
      by (simp add: delete_image_def delete_image_try_def Let_def case_logActivity
            split: prod.splits sum.splits option.splits)
  qed
qed

text \<open>
  C3 (what the code does): when no row of \<open>images\<close> has both the given id and the
  caller as owner, \<^verbatim>\<open>.single()\<close> resolves to the error \<^verbatim>\<open>PGRST116\<close>, the handler
  throws it and answers 500 with that error's message as \<^verbatim>\<open>details\<close>; the branch that
  answers 404 is not reached. The store is left as it was.
\<close>

theorem delete_image_miss:
  assumes "\<forall>i \<in> set (images w). \<not> (i_id i = imageId \<and> i_user_id i = c_userId user)"
  shows "delete_image e imageId user w
         = (w, \<lparr> status = 500,
                 body = JObj [(''success'', JBool False), (''error'', JStr msg_delete_failed),
                              (''details'',
                                 JStr (lit ''JSON object requested, multiple (or no) rows returned''))] \<rparr>)"
proof -
  from assms have "filter (\<lambda>i. i_id i = imageId \<and> i_user_id i = c_userId user) (images w) = []"
    by (auto simp: filter_empty_conv)
  then show ?thesis
    by (simp add: delete_image_def delete_image_try_def pgrst116_def)
qed

theorem delete_image_miss_witness:
  "status (snd (delete_image sample_env (lit ''img1'') bob_claims sample_world)) = 500
   \<and> fst (delete_image sample_env (lit ''img1'') bob_claims sample_world) = sample_world
   \<and> status (snd (delete_image sample_env (lit ''img9'') alice_claims sample_world)) = 500
   \<and> status (snd (delete_image sample_env (lit ''img1'') alice_claims sample_world)) = 200"
proof -
  have 1: "\<forall>i \<in> set (images sample_world). \<not> (i_id i = lit ''img1'' \<and> i_user_id i = c_userId bob_claims)"
    by (simp add: sample_world_def fox_def bob_claims_def lit_def)
  have 2: "\<forall>i \<in> set (images sample_world). \<not> (i_id i = lit ''img9'' \<and> i_user_id i = c_userId alice_claims)"
    by (simp add: sample_world_def fox_def alice_claims_def lit_def)
  have 3: "status (snd (delete_image sample_env (lit ''img1'') alice_claims sample_world)) = 200"
    by (simp add: delete_image_def delete_image_try_def case_logActivity storage_remove_def
          images_delete_def Let_def sample_env_def sample_world_def alice_claims_def fox_def lit_def)
  from delete_image_miss [OF 1, of sample_env] delete_image_miss [OF 2, of sample_env] 3
  show ?thesis by simp
qed

section \<open>Properties of the listings\<close>

lemma ceil_quotient_positive:
  "0 < n \<Longrightarrow> json_number (Math_ceil (js_div (Num (real m)) (Num (real_of_int n))))
               = JNum (of_int \<lceil>real m / real_of_int n\<rceil>)"
  by simp

lemma admin_users_ok:
  assumes "status (admin_users or_filter page limit search w) = 200"
  shows "\<exists>rows. admin_users or_filter page limit search w
          = \<lparr> status = 200,
               body = JObj [(''success'', JBool True),
                            (''users'', JArr (map user_json rows)),
                            (''pagination'',
                               JObj [(''currentPage'',
                                        json_number (as_parseInt (with_default (numeric 1) page))),
                                     (''totalPages'',
                                        json_number (Math_ceil (js_div (Num (real (length (users w))))
                                                       (as_Number (with_default (numeric 10) limit))))),
                                     (''totalUsers'', JNum (real (length (users w)))),
                                     (''limit'',
                                        json_number (as_parseInt (with_default (numeric 10) limit)))])] \<rparr>"
  using assms
  by (auto simp: admin_users_def admin_users_try_def Let_def split: option.splits sum.splits if_splits)

lemma set_range_rows: "set (with_default [] (data (range_rows from to rows))) \<subseteq> set rows"
proof -
  have "set (take n (drop m rows)) \<subseteq> set rows" for n m
  proof -
    have "set (take n (drop m rows)) \<subseteq> set (drop m rows)"
      by (rule set_take_subset)
    also have "\<dots> \<subseteq> set rows"
      by (rule set_drop_subset)
    finally show ?thesis .
  qed
  then show ?thesis
    by (simp add: range_rows_def split: js_number.splits)
qed

text \<open>The rows a listing of activities is made of: the caller's rows, newest first, those
  with the action asked for when one is given.\<close>

lemma get_activities_ok:
  assumes "status (get_activities page limit action user w) = 200"
  shows "\<exists>table rows.
           activities w = Some table
         \<and> set rows \<subseteq> {a \<in> set table. a_user_id a = c_userId user}
         \<and> get_activities page limit action user w
            = \<lparr> status = 200,
                 body = JObj [(''success'', JBool True),
                              (''activities'', JArr (map (activity_json (images w)) rows)),
                              (''pagination'',
                                 JObj [(''currentPage'',
                                          json_number (as_parseInt (with_default (numeric 1) page))),
                                       (''totalPages'',
                                          json_number (Math_ceil (js_div
                                            (Num (real (length (filter (\<lambda>a. a_user_id a = c_userId user
                                                    \<and> (with_default [] action \<noteq> []
                                                          \<longrightarrow> a_action a = with_default [] action)) table))))
                                            (as_Number (with_default (numeric 20) limit))))),
                                       (''totalActivities'',
                                          JNum (real (length (filter (\<lambda>a. a_user_id a = c_userId user
                                                    \<and> (with_default [] action \<noteq> []
                                                          \<longrightarrow> a_action a = with_default [] action)) table)))),
                                       (''limit'',
                                          json_number (as_parseInt (with_default (numeric 20) limit)))])] \<rparr>"
proof -
  from assms obtain table where table: "activities w = Some table"
    by (cases "activities w")
       (auto simp: get_activities_def get_activities_try_def Let_def activities_missing_def)
  let ?mine = "filter (\<lambda>a. a_user_id a = c_userId user) table"
  let ?filtered = "if with_default [] action \<noteq> []
               then filter (\<lambda>a. a_action a = with_default [] action) (order_desc timestamp ?mine)
               else order_desc timestamp ?mine"
  let ?offset = "js_mul (js_sub (as_Number (with_default (numeric 1) page)) (Num 1))
                   (as_Number (with_default (numeric 20) limit))"
  let ?q = "range_rows ?offset
              (js_sub (js_add ?offset (as_parseInt (with_default (numeric 20) limit))) (Num 1)) ?filtered"
  let ?rows = "with_default [] (data ?q)"
  have count: "(if with_default [] action \<noteq> []
                then filter (\<lambda>a. a_action a = with_default [] action) ?mine else ?mine)
      = filter (\<lambda>a. a_user_id a = c_userId user
                  \<and> (with_default [] action \<noteq> [] \<longrightarrow> a_action a = with_default [] action)) table"
    by (auto intro: filter_cong)
  from assms table have err: "error ?q = None"
    by (auto simp: get_activities_def get_activities_try_def Let_def split: option.splits)
  have "set ?rows \<subseteq> set ?filtered"
    by (rule set_range_rows)
  also have "\<dots> \<subseteq> {a \<in> set table. a_user_id a = c_userId user}"
    by (auto simp: order_desc_def)
  finally have sub: "set ?rows \<subseteq> {a \<in> set table. a_user_id a = c_userId user}" .
  from table err count have "get_activities page limit action user w
            = \<lparr> status = 200,
                 body = JObj [(''success'', JBool True),
                              (''activities'', JArr (map (activity_json (images w)) ?rows)),
                              (''pagination'',
                                 JObj [(''currentPage'',
                                          json_number (as_parseInt (with_default (numeric 1) page))),
                                       (''totalPages'',
                                          json_number (Math_ceil (js_div
                                            (Num (real (length (filter (\<lambda>a. a_user_id a = c_userId user
                                                    \<and> (with_default [] action \<noteq> []
                                                          \<longrightarrow> a_action a = with_default [] action)) table))))
                                            (as_Number (with_default (numeric 20) limit))))),
                                       (''totalActivities'',
                                          JNum (real (length (filter (\<lambda>a. a_user_id a = c_userId user
                                                    \<and> (with_default [] action \<noteq> []
                                                          \<longrightarrow> a_action a = with_default [] action)) table)))),
                                       (''limit'',
                                          json_number (as_parseInt (with_default (numeric 20) limit)))])] \<rparr>"
    by (simp add: get_activities_def get_activities_try_def Let_def)
  with table sub show ?thesis by blast
qed

text \<open>
  C4: for a request to \<^verbatim>\<open>GET /api/admin/users\<close> or to \<^verbatim>\<open>GET /api/activities\<close>
  whose limit (the one given, or the default 10 or 20) is a positive integer \<open>n\<close> as a
  number, every 200 response reports a total count and \<open>totalPages\<close> equal to the
  ceiling of that count divided by \<open>n\<close>. The \<open>limit\<close> it reports is
  \<^verbatim>\<open>parseInt\<close> of the parameter, which is \<open>n\<close> again for a limit written in
  decimal digits.
\<close>

theorem listing_totalPages:
  "(as_Number (with_default (numeric 10) limit) = Num (real_of_int n) \<and> 0 < n
      \<and> status (admin_users or_filter page limit search w) = 200 \<longrightarrow>
      (\<exists>total. pagination ''totalUsers'' (admin_users or_filter page limit search w)
                  = Some (JNum (real total))
         \<and> pagination ''totalPages'' (admin_users or_filter page limit search w)
             = Some (JNum (of_int \<lceil>real total / real_of_int n\<rceil>))
         \<and> pagination ''limit'' (admin_users or_filter page limit search w)
             = Some (json_number (as_parseInt (with_default (numeric 10) limit)))))
   \<and> (as_Number (with_default (numeric 20) limit') = Num (real_of_int n') \<and> 0 < n'
      \<and> status (get_activities page' limit' action user w') = 200 \<longrightarrow>
      (\<exists>total. pagination ''totalActivities'' (get_activities page' limit' action user w')
                  = Some (JNum (real total))
         \<and> pagination ''totalPages'' (get_activities page' limit' action user w')
             = Some (JNum (of_int \<lceil>real total / real_of_int n'\<rceil>))
         \<and> pagination ''limit'' (get_activities page' limit' action user w')
             = Some (json_number (as_parseInt (with_default (numeric 20) limit')))))"
proof (intro conjI impI; elim conjE)
  assume lim: "as_Number (with_default (numeric 10) limit) = Num (real_of_int n)" and pos: "0 < n"
    and ok: "status (admin_users or_filter page limit search w) = 200"
  from admin_users_ok [OF ok] obtain rows where
    r: "admin_users or_filter page limit search w
          = \<lparr> status = 200,
               body = JObj [(''success'', JBool True),
                            (''users'', JArr (map user_json rows)),
                            (''pagination'',
                               JObj [(''currentPage'',
                                        json_number (as_parseInt (with_default (numeric 1) page))),
                                     (''totalPages'',
                                        json_number (Math_ceil (js_div (Num (real (length (users w))))
                                                       (as_Number (with_default (numeric 10) limit))))),
                                     (''totalUsers'', JNum (real (length (users w)))),
                                     (''limit'',
                                        json_number (as_parseInt (with_default (numeric 10) limit)))])] \<rparr>"
    by blast
  show "\<exists>total. pagination ''totalUsers'' (admin_users or_filter page limit search w)
                  = Some (JNum (real total))
         \<and> pagination ''totalPages'' (admin_users or_filter page limit search w)
             = Some (JNum (of_int \<lceil>real total / real_of_int n\<rceil>))
         \<and> pagination ''limit'' (admin_users or_filter page limit search w)
             = Some (json_number (as_parseInt (with_default (numeric 10) limit)))"
    using pos
    by (intro exI [of _ "length (users w)"])
       (simp add: r lim pagination_def ceil_quotient_positive del: js_div.simps Math_ceil.simps json_number.simps)
next
  assume lim: "as_Number (with_default (numeric 20) limit') = Num (real_of_int n')" and pos: "0 < n'"
    and ok: "status (get_activities page' limit' action user w') = 200"
  from get_activities_ok [OF ok] obtain table rows where
    "activities w' = Some table" and "set rows \<subseteq> {a \<in> set table. a_user_id a = c_userId user}" and
    r: "get_activities page' limit' action user w'
            = \<lparr> status = 200,
                 body = JObj [(''success'', JBool True),
                              (''activities'', JArr (map (activity_json (images w')) rows)),
                              (''pagination'',
                                 JObj [(''currentPage'',
                                          json_number (as_parseInt (with_default (numeric 1) page'))),
                                       (''totalPages'',
                                          json_number (Math_ceil (js_div
                                            (Num (real (length (filter (\<lambda>a. a_user_id a = c_userId user
                                                    \<and> (with_default [] action \<noteq> []
                                                          \<longrightarrow> a_action a = with_default [] action)) table))))
                                            (as_Number (with_default (numeric 20) limit'))))),
                                       (''totalActivities'',
                                          JNum (real (length (filter (\<lambda>a. a_user_id a = c_userId user
                                                    \<and> (with_default [] action \<noteq> []
                                                          \<longrightarrow> a_action a = with_default [] action)) table)))),
                                       (''limit'',
                                          json_number (as_parseInt (with_default (numeric 20) limit')))])] \<rparr>"
    by blast
  show "\<exists>total. pagination ''totalActivities'' (get_activities page' limit' action user w')
                  = Some (JNum (real total))
         \<and> pagination ''totalPages'' (get_activities page' limit' action user w')
             = Some (JNum (of_int \<lceil>real total / real_of_int n'\<rceil>))
         \<and> pagination ''limit'' (get_activities page' limit' action user w')
             = Some (json_number (as_parseInt (with_default (numeric 20) limit')))"
    using pos
    by (intro exI [of _ "length (filter (\<lambda>a. a_user_id a = c_userId user
                                                    \<and> (with_default [] action \<noteq> []
                                                          \<longrightarrow> a_action a = with_default [] action)) table)"])
       (simp add: r lim pagination_def ceil_quotient_positive del: js_div.simps Math_ceil.simps json_number.simps)
qed

theorem listing_totalPages_witness:
  "status (admin_users sample_or_filter None (Some (numeric 2)) None sample_world) = 200
   \<and> pagination ''totalUsers'' (admin_users sample_or_filter None (Some (numeric 2)) None sample_world)
       = Some (JNum 3)
   \<and> pagination ''totalPages'' (admin_users sample_or_filter None (Some (numeric 2)) None sample_world)
       = Some (JNum 2)
   \<and> pagination ''limit'' (admin_users sample_or_filter None (Some (numeric 2)) None sample_world)
       = Some (JNum 2)
   \<and> status (admin_users sample_or_filter None (Some one_e3) None sample_world) = 200
   \<and> pagination ''totalPages'' (admin_users sample_or_filter None (Some one_e3) None sample_world)
       = Some (JNum 1)
   \<and> pagination ''limit'' (admin_users sample_or_filter None (Some one_e3) None sample_world)
       = Some (JNum 1)
   \<and> status (get_activities (Some (numeric 2)) (Some (numeric 2)) None alice_claims sample_world) = 200
   \<and> pagination ''totalActivities''
        (get_activities (Some (numeric 2)) (Some (numeric 2)) None alice_claims sample_world)
       = Some (JNum 3)
   \<and> pagination ''totalPages''
        (get_activities (Some (numeric 2)) (Some (numeric 2)) None alice_claims sample_world)
       = Some (JNum 2)"
proof -
  let ?u = "admin_users sample_or_filter None (Some (numeric 2)) None sample_world"
  let ?e = "admin_users sample_or_filter None (Some one_e3) None sample_world"
  let ?a = "get_activities (Some (numeric 2)) (Some (numeric 2)) None alice_claims sample_world"
  have n: "length (users sample_world) = 3"
    by (simp add: sample_world_def)
  have mine: "filter (\<lambda>a. a_user_id a = c_userId alice_claims)
                [alice_generated, bob_downloaded, alice_downloaded, alice_viewed]
              = [alice_generated, alice_downloaded, alice_viewed]"
    by (simp add: alice_claims_def alice_generated_def bob_downloaded_def alice_downloaded_def
          alice_viewed_def lit_def)
  have u: "status ?u = 200" "pagination ''totalUsers'' ?u = Some (JNum 3)"
    by (simp_all add: admin_users_def admin_users_try_def Let_def range_rows_def pagination_def
          numeric_def js_sub_def n)
  have e: "status ?e = 200" "pagination ''totalUsers'' ?e = Some (JNum 3)"
    by (simp_all add: admin_users_def admin_users_try_def Let_def range_rows_def pagination_def
          numeric_def one_e3_def js_sub_def n)
  have t: "activities sample_world = Some [alice_generated, bob_downloaded, alice_downloaded, alice_viewed]"
    by (simp add: sample_world_def)
  have a: "status ?a = 200" "pagination ''totalActivities'' ?a = Some (JNum 3)"
    by (simp_all add: get_activities_def get_activities_try_def Let_def range_rows_def pagination_def
          numeric_def js_sub_def t mine del: filter.simps)
  have l2: "as_Number (with_default (numeric 10) (Some (numeric 2))) = Num (real_of_int 2)"
     "as_Number (with_default (numeric 20) (Some (numeric 2))) = Num (real_of_int 2)"
     "as_parseInt (with_default (numeric 10) (Some (numeric 2))) = Num 2"
    by (simp_all add: numeric_def)
  have l3: "as_Number (with_default (numeric 10) (Some one_e3)) = Num (real_of_int 1000)"
     "as_parseInt (with_default (numeric 10) (Some one_e3)) = Num 1"
    by (simp_all add: one_e3_def)
  from listing_totalPages [where limit = "Some (numeric 2)" and n = 2 and or_filter = sample_or_filter
          and page = None and search = None and w = sample_world
          and limit' = "Some (numeric 2)" and n' = 2 and page' = "Some (numeric 2)" and action = None
          and user = alice_claims and w' = sample_world] u a l2
  have "pagination ''totalPages'' ?u = Some (JNum 2)" "pagination ''limit'' ?u = Some (JNum 2)"
       "pagination ''totalPages'' ?a = Some (JNum 2)"
    by auto
  moreover
  from listing_totalPages [where limit = "Some one_e3" and n = 1000 and or_filter = sample_or_filter
          and page = None and search = None and w = sample_world
          and limit' = "Some (numeric 2)" and n' = 2 and page' = "Some (numeric 2)" and action = None
          and user = alice_claims and w' = sample_world] e l3
  have "pagination ''totalPages'' ?e = Some (JNum 1)" "pagination ''limit'' ?e = Some (JNum 1)"
    by auto
  ultimately show ?thesis
    using u e a by simp
qed

text \<open>
  C9: in the 200 responses of \<^verbatim>\<open>GET /api/admin/users\<close> to requests with a non-empty
  search string, \<open>totalUsers\<close> is the number of rows of the whole \<open>users\<close> table and
  \<open>totalPages\<close> is computed from it; two such requests that differ only in the search
  string get the same pagination object.
\<close>

theorem admin_users_total_ignores_search:
  assumes "s \<noteq> []" "s' \<noteq> []"
    and "status (admin_users or_filter page limit (Some s) w) = 200"
    and "status (admin_users or_filter page limit (Some s') w) = 200"
  shows "pagination ''totalUsers'' (admin_users or_filter page limit (Some s) w)
           = Some (JNum (real (length (users w))))
       \<and> pagination ''totalPages'' (admin_users or_filter page limit (Some s) w)
           = Some (json_number (Math_ceil (js_div (Num (real (length (users w))))
                                  (as_Number (with_default (numeric 10) limit)))))
       \<and> field ''pagination'' (body (admin_users or_filter page limit (Some s) w))
           = field ''pagination'' (body (admin_users or_filter page limit (Some s') w))"
  using admin_users_ok [OF assms(3)] admin_users_ok [OF assms(4)]
  by (auto simp: pagination_def)

theorem admin_users_total_ignores_search_witness:
  "field ''users'' (body (admin_users sample_or_filter None (Some (numeric 2)) (Some (lit ''alice'')) sample_world))
     = Some (JArr [user_json alice])
   \<and> pagination ''totalUsers''
       (admin_users sample_or_filter None (Some (numeric 2)) (Some (lit ''alice'')) sample_world)
     = Some (JNum 3)
   \<and> pagination ''totalPages''
       (admin_users sample_or_filter None (Some (numeric 2)) (Some (lit ''alice'')) sample_world)
     = Some (JNum 2)
   \<and> field ''pagination''
       (body (admin_users sample_or_filter None (Some (numeric 2)) (Some (lit ''alice'')) sample_world))
     = field ''pagination''
       (body (admin_users sample_or_filter None (Some (numeric 2)) (Some (lit ''example'')) sample_world))"
proof -
  let ?a = "admin_users sample_or_filter None (Some (numeric 2)) (Some (lit ''alice'')) sample_world"
  let ?e = "admin_users sample_or_filter None (Some (numeric 2)) (Some (lit ''example'')) sample_world"
  have f1: "sample_or_filter (lit ''full_name.ilike.%'' @ lit ''alice'' @ lit ''%,email.ilike.%''
                                   @ lit ''alice'' @ lit ''%'') = Some (\<lambda>u. u_email u = lit ''alice@example.com'')"
    by (simp add: sample_or_filter_def lit_def)
  have f2: "sample_or_filter (lit ''full_name.ilike.%'' @ lit ''example'' @ lit ''%,email.ilike.%''
                                   @ lit ''example'' @ lit ''%'') = Some (\<lambda>u. True)"
    by (simp add: sample_or_filter_def lit_def)
  have n: "lit ''alice'' \<noteq> []" "lit ''example'' \<noteq> []"
    by (simp_all add: lit_def)
  have sa: "status ?a = 200"
    using n by (simp add: admin_users_def admin_users_try_def Let_def range_rows_def f1 numeric_def js_sub_def)
  have se: "status ?e = 200"
    using n by (simp add: admin_users_def admin_users_try_def Let_def range_rows_def f2 numeric_def js_sub_def)
  have rows: "field ''users'' (body ?a) = Some (JArr [user_json alice])"
    using n
    by (simp add: admin_users_def admin_users_try_def Let_def range_rows_def f1 order_desc_def
          sample_world_def numeric_def js_sub_def)
       (simp add: alice_def bob_def carol_def lit_def)
  from admin_users_total_ignores_search [OF n sa se] rows
  show ?thesis
    by (simp add: sample_world_def numeric_def)
qed

text \<open>
  C10: the answer of \<^verbatim>\<open>GET /api/activities\<close> to a caller is made of the caller's rows
  only. Two stores with the same images whose \<open>activities\<close> tables hold the same rows
  of the caller, whatever rows of other users they hold, give the caller the same
  response; and in a 200 response every row listed is the projection of a row of the
  table whose \<open>user_id\<close> is the caller's, and \<open>totalActivities\<close> counts the caller's
  rows (those with the action asked for, when one is given).
\<close>

theorem activities_isolated:
  assumes t: "activities w = Some t" and t': "activities w' = Some t'"
    and imgs: "images w' = images w"
    and same: "filter (\<lambda>a. a_user_id a = c_userId user) t' = filter (\<lambda>a. a_user_id a = c_userId user) t"
  shows "get_activities page limit action user w' = get_activities page limit action user w
       \<and> (status (get_activities page limit action user w) = 200 \<longrightarrow>
            (\<exists>rows. field ''activities'' (body (get_activities page limit action user w))
                       = Some (JArr (map (activity_json (images w)) rows))
                   \<and> (\<forall>a \<in> set rows. a \<in> set t \<and> a_user_id a = c_userId user)
                   \<and> pagination ''totalActivities'' (get_activities page limit action user w)
                       = Some (JNum (real (length
                           (filter (\<lambda>a. a_user_id a = c_userId user
                                      \<and> (with_default [] action \<noteq> [] \<longrightarrow> a_action a = with_default [] action)) t))))))"
proof (intro conjI impI)
  show "get_activities page limit action user w' = get_activities page limit action user w"
    by (simp add: get_activities_def get_activities_try_def Let_def t t' imgs same
          cong: option.case_cong sum.case_cong)
next
  assume ok: "status (get_activities page limit action user w) = 200"
  from get_activities_ok [OF ok] t
  show "\<exists>rows. field ''activities'' (body (get_activities page limit action user w))
                       = Some (JArr (map (activity_json (images w)) rows))
                   \<and> (\<forall>a \<in> set rows. a \<in> set t \<and> a_user_id a = c_userId user)
                   \<and> pagination ''totalActivities'' (get_activities page limit action user w)
                       = Some (JNum (real (length
                           (filter (\<lambda>a. a_user_id a = c_userId user
                                      \<and> (with_default [] action \<noteq> [] \<longrightarrow> a_action a = with_default [] action)) t))))"
    by (auto simp: pagination_def)
qed

theorem activities_isolated_witness:
  "get_activities None None None alice_claims other_world
     = get_activities None None None alice_claims sample_world
   \<and> status (get_activities None None None alice_claims sample_world) = 200
   \<and> field ''activities'' (body (get_activities None None None alice_claims sample_world))
       = Some (JArr (map (activity_json [fox]) [alice_viewed, alice_downloaded, alice_generated]))
   \<and> pagination ''totalActivities'' (get_activities None None None alice_claims sample_world)
       = Some (JNum 3)"
proof -
  let ?mine = "\<lambda>a. a_user_id a = c_userId alice_claims"
  have t: "activities sample_world = Some [alice_generated, bob_downloaded, alice_downloaded, alice_viewed]"
    by (simp add: sample_world_def)
  have t': "activities other_world = Some [carol_viewed, alice_generated, alice_downloaded, alice_viewed]"
    by (simp add: other_world_def)
  have imgs: "images other_world = images sample_world"
    by (simp add: other_world_def)
  have same: "filter ?mine [carol_viewed, alice_generated, alice_downloaded, alice_viewed]
              = filter ?mine [alice_generated, bob_downloaded, alice_downloaded, alice_viewed]"
    by (simp add: alice_claims_def alice_generated_def bob_downloaded_def alice_downloaded_def
          alice_viewed_def carol_viewed_def lit_def)
  have mine: "filter ?mine [alice_generated, bob_downloaded, alice_downloaded, alice_viewed]
              = [alice_generated, alice_downloaded, alice_viewed]"
    by (simp add: alice_claims_def alice_generated_def bob_downloaded_def alice_downloaded_def
          alice_viewed_def lit_def)
  have sorted: "order_desc timestamp [alice_generated, alice_downloaded, alice_viewed]
              = [alice_viewed, alice_downloaded, alice_generated]"
    by (simp add: order_desc_def alice_generated_def alice_downloaded_def alice_viewed_def)
  have ok: "status (get_activities None None None alice_claims sample_world) = 200"
    by (simp add: get_activities_def get_activities_try_def Let_def range_rows_def numeric_def
          js_sub_def t mine sorted del: filter.simps)
  have rows: "field ''activities'' (body (get_activities None None None alice_claims sample_world))
       = Some (JArr (map (activity_json [fox]) [alice_viewed, alice_downloaded, alice_generated]))"
    by (simp add: get_activities_def get_activities_try_def Let_def range_rows_def numeric_def
          js_sub_def t mine sorted del: filter.simps)
       (simp add: sample_world_def)
  from activities_isolated [OF t t' imgs same, of None None None] ok rows mine
  show ?thesis by auto
qed

end
